theory Spec2Isabelle
  imports Complex_Main "HOL-Library.Monad_Syntax"
begin

unbundle bit_operations_syntax

chapter \<open>The program\<close>


section \<open>Python values and the library functions the source relies on\<close>

text \<open>
  A Python \<open>str\<close> is a sequence of Unicode code points; the class names of this program are
  Cyrillic, so a string is a list of code points and not a list of bytes.
  \<open>u\<close> reads an ASCII literal.
\<close>

type_synonym ustr = "nat list"

definition u :: "string \<Rightarrow> ustr" where
  "u s = map of_char s"

text \<open>The sentinel class name, U+043F U+0440 U+043E U+0447 U+0435 U+0435.\<close>

definition prochee :: ustr where
  "prochee = [1087, 1088, 1086, 1095, 1077, 1077]"

text \<open>\<open>str.isspace\<close> on one code point: the characters \<open>str.strip()\<close> and \<open>str.split()\<close> remove.\<close>

definition isspace :: "nat \<Rightarrow> bool" where
  "isspace c \<longleftrightarrow> (9 \<le> c \<and> c \<le> 13) \<or> (28 \<le> c \<and> c \<le> 32) \<or> c = 133 \<or> c = 160
     \<or> c = 5760 \<or> (8192 \<le> c \<and> c \<le> 8202) \<or> c = 8232 \<or> c = 8233 \<or> c = 8239
     \<or> c = 8287 \<or> c = 12288"

definition strip :: "ustr \<Rightarrow> ustr" where
  "strip s = rev (dropWhile isspace (rev (dropWhile isspace s)))"

text \<open>\<open>s.split()\<close>: the maximal runs of non-space characters; \<open>w\<close> is the run being read.\<close>

fun split_acc :: "ustr \<Rightarrow> ustr \<Rightarrow> ustr list" where
  "split_acc [] w = (if w = [] then [] else [w])"
| "split_acc (c # cs) w =
     (if isspace c then (if w = [] then split_acc cs [] else w # split_acc cs [])
      else split_acc cs (w @ [c]))"

definition split_ws :: "ustr \<Rightarrow> ustr list" where
  "split_ws s = split_acc s []"

text \<open>A word without whitespace, as \<open>split()\<close> returns them.\<close>

definition spacefree :: "ustr \<Rightarrow> bool" where
  "spacefree w \<longleftrightarrow> (\<forall>c\<in>set w. \<not> isspace c)"

text \<open>\<open>" ".join(ws)\<close>\<close>

fun join_sp :: "ustr list \<Rightarrow> ustr" where
  "join_sp [] = []"
| "join_sp [w] = w"
| "join_sp (w # v # ws) = w @ 32 # join_sp (v # ws)"

text \<open>
  A Python \<open>float\<close>: a finite value, an infinity or NaN. Finite values are kept as exact
  rationals; what is modelled of IEEE arithmetic is the special values and the comparison
  rules (every comparison with NaN is false), not the rounding of the last bit.
\<close>

datatype fl = Num rat | PosInf | NegInf | NaN

text \<open>What \<open>json.loads\<close> returns: \<open>None\<close>, \<open>bool\<close>, \<open>int\<close>, \<open>float\<close>, \<open>str\<close>, \<open>list\<close>, and
  \<open>dict\<close> with string keys, in insertion order.\<close>

datatype pv = PNone | PBool bool | PInt int | PFloat fl | PStr ustr | PList "pv list"
  | PDict "(ustr \<times> pv) list"

text \<open>
  Functions of the Python standard library and of third-party packages that the source
  calls and that are not part of the repository. The definitions below take them as a
  parameter \<open>L\<close>; theorems hold for every such \<open>L\<close>.
\<close>

record pylib =
  lower :: "ustr \<Rightarrow> ustr"                 \<comment> \<open>\<open>str.lower\<close>\<close>
  float_of_str :: "ustr \<Rightarrow> fl option"      \<comment> \<open>\<open>float(s)\<close> on a string, \<open>None\<close> for ValueError\<close>
  int_of_str :: "ustr \<Rightarrow> int option"       \<comment> \<open>\<open>int(s)\<close> on a string, \<open>None\<close> for ValueError\<close>
  repr_of :: "pv \<Rightarrow> ustr"                  \<comment> \<open>\<open>str(v)\<close> on a float, a list or a dict\<close>
  int16_of_str :: "ustr \<Rightarrow> int option"     \<comment> \<open>\<open>int(s, 16)\<close>, \<open>None\<close> for ValueError\<close>
  sha256_hex :: "nat list \<Rightarrow> ustr"         \<comment> \<open>\<open>hashlib.sha256(bytes).hexdigest()\<close>\<close>

text \<open>
  One instance, for evaluating the definitions at concrete inputs: lower-casing of the
  Basic Latin and Cyrillic letters, decimal and hexadecimal digits for numbers. It is only
  ever applied to such inputs; \<open>repr_of\<close> is never evaluated. In place of SHA-256 it has
  a digest that writes out the first four bytes in hexadecimal, which tells apart the
  file contents used below.
\<close>

definition lower_cp :: "nat \<Rightarrow> nat" where
  "lower_cp c = (if 65 \<le> c \<and> c \<le> 90 then c + 32
                 else if 1040 \<le> c \<and> c \<le> 1071 then c + 32
                 else if 1024 \<le> c \<and> c \<le> 1039 then c + 80 else c)"

fun digits_val :: "ustr \<Rightarrow> nat \<Rightarrow> nat option" where
  "digits_val [] acc = Some acc"
| "digits_val (c # cs) acc =
     (if 48 \<le> c \<and> c \<le> 57 then digits_val cs (10 * acc + (c - 48)) else None)"

definition dec_int :: "ustr \<Rightarrow> int option" where
  "dec_int s = (if s = [] then None else map_option int (digits_val s 0))"

fun hex_val :: "ustr \<Rightarrow> nat \<Rightarrow> nat option" where
  "hex_val [] acc = Some acc"
| "hex_val (c # cs) acc =
     (if 48 \<le> c \<and> c \<le> 57 then hex_val cs (16 * acc + (c - 48))
      else if 97 \<le> c \<and> c \<le> 102 then hex_val cs (16 * acc + (c - 87))
      else if 65 \<le> c \<and> c \<le> 70 then hex_val cs (16 * acc + (c - 55))
      else None)"

definition hex_int :: "ustr \<Rightarrow> int option" where
  "hex_int s = (if s = [] then None else map_option int (hex_val s 0))"

definition hex_digit :: "nat \<Rightarrow> nat" where
  "hex_digit d = (if d < 10 then 48 + d else 87 + d)"

definition toy_digest :: "nat list \<Rightarrow> ustr" where
  "toy_digest bs =
     take 8 (concat (map (\<lambda>b. [hex_digit ((b div 16) mod 16), hex_digit (b mod 16)]) bs)
             @ replicate 8 48)"

definition stdlib :: pylib where
  "stdlib = \<lparr> lower = map lower_cp,
              float_of_str = (\<lambda>s. if s = u ''nan'' then Some NaN
                                   else map_option (\<lambda>i. Num (of_int i)) (dec_int s)),
              int_of_str = dec_int,
              repr_of = (\<lambda>v. u ''?''),
              int16_of_str = hex_int,
              sha256_hex = toy_digest \<rparr>"


section \<open>Model cache: device resolution (\<open>model_manager.py\<close>)\<close>

text \<open>What importing \<open>torch\<close> and asking it for CUDA gives: an exception, or the two answers
  of \<open>torch.cuda.is_available()\<close> and \<open>torch.cuda.device_count()\<close>.\<close>

datatype torch_probe = Probe_raises | Probe bool int

definition cuda_usable :: "torch_probe \<Rightarrow> bool option" where
  "cuda_usable t = (case t of Probe_raises \<Rightarrow> None | Probe av n \<Rightarrow> Some (av \<and> n > 0))"

text \<open>\<open>_resolve_device\<close>; \<open>infer_device\<close> is \<open>settings.INFER_DEVICE\<close>.\<close>

definition resolve_device :: "pylib \<Rightarrow> ustr \<Rightarrow> torch_probe \<Rightarrow> ustr \<times> bool" where
  "resolve_device L infer_device t =
     (let req = lower L (strip (if infer_device = [] then u ''auto'' else infer_device)) in
      if req \<in> {u ''cpu'', u ''-1''} then (u ''cpu'', False)
      else if req \<in> {u ''auto'', u ''cuda'', u ''gpu''} then
        (case cuda_usable t of
           Some True \<Rightarrow> (u ''0'', False)
         | Some False \<Rightarrow> (u ''cpu'', True)
         | None \<Rightarrow> (u ''cpu'', True))
      else
        (case cuda_usable t of
           Some True \<Rightarrow> (req, False)
         | Some False \<Rightarrow> (u ''cpu'', True)
         | None \<Rightarrow> (u ''cpu'', True)))"


section \<open>Atomic record store (\<open>json_io.py\<close>)\<close>

text \<open>
  The text of a file is represented by what the readers of this program make of it:
  bytes that are not UTF-8, text that is empty after \<open>strip()\<close>, text that \<open>json.loads\<close>
  parses to a value, and any other text, on which \<open>json.loads\<close> raises.
\<close>

datatype content = Undecodable | Blank | Doc pv | Garbage

datatype io_error = FileNotFoundError | UnicodeDecodeError | JSONDecodeError | UnicodeEncodeError

text \<open>The files of the store, by location: a location names a regular file or nothing.
  Directories at these locations and failures of the operating system are not modelled.\<close>

type_synonym 'p fs = "'p \<Rightarrow> content option"

definition read_text :: "'p fs \<Rightarrow> 'p \<Rightarrow> io_error + content" where
  "read_text fs p = (case fs p of None \<Rightarrow> Inl FileNotFoundError
                     | Some Undecodable \<Rightarrow> Inl UnicodeDecodeError
                     | Some c \<Rightarrow> Inr c)"

definition json_loads :: "content \<Rightarrow> io_error + pv" where
  "json_loads c = (case c of Doc v \<Rightarrow> Inr v | _ \<Rightarrow> Inl JSONDecodeError)"

text \<open>\<open>atomic_read_json(path, default=d)\<close>; \<open>PNone\<close> is the default's default.\<close>

definition atomic_read_json :: "'p fs \<Rightarrow> 'p \<Rightarrow> pv \<Rightarrow> io_error + pv" where
  "atomic_read_json fs p d =
     (if fs p = None then (if d \<noteq> PNone then Inr d else Inl FileNotFoundError)
      else case read_text fs p of
             Inl e \<Rightarrow> Inl e
           | Inr text \<Rightarrow>
               if text = Blank then Inr (if d \<noteq> PNone then d else PDict [])
               else json_loads text)"

text \<open>
  A string can be written to a UTF-8 text file when it holds no surrogate code point
  (\<open>U+D800\<close> to \<open>U+DFFF\<close>); \<open>json.loads\<close> produces such a code point from the escape
  \<open>"\ud800"\<close>, and \<open>json.dump(..., ensure_ascii=False)\<close> passes it on to the file object,
  whose \<open>write\<close> raises \<open>UnicodeEncodeError\<close>. A value can be written when all its strings
  and dictionary keys can.
\<close>

definition surrogate_free :: "ustr \<Rightarrow> bool" where
  "surrogate_free s = list_all (\<lambda>c. c < 55296 \<or> 57343 < c) s"

fun encodable :: "pv \<Rightarrow> bool" where
  "encodable (PStr s) = surrogate_free s"
| "encodable (PList xs) = list_all encodable xs"
| "encodable (PDict d) = list_all (\<lambda>kv. surrogate_free (fst kv) \<and> encodable (snd kv)) d"
| "encodable v = True"

text \<open>\<open>atomic_write_json(path, data)\<close>: the text is written to a temporary file, which then
  replaces the destination. When writing the text raises, the temporary file is removed
  and the destination is left as it was.\<close>

definition atomic_write_json :: "'p fs \<Rightarrow> 'p \<Rightarrow> pv \<Rightarrow> io_error + 'p fs" where
  "atomic_write_json fs p v =
     (if encodable v then Inr (fs(p \<mapsto> Doc v)) else Inl UnicodeEncodeError)"


section \<open>Dynamic typing: truth values, dictionaries, conversions\<close>

text \<open>Truth value of an object, as \<open>if v\<close>, \<open>not v\<close> and \<open>a or b\<close> test it.\<close>

fun truthy :: "pv \<Rightarrow> bool" where
  "truthy PNone = False"
| "truthy (PBool b) = b"
| "truthy (PInt i) = (i \<noteq> 0)"
| "truthy (PFloat f) = (f \<noteq> Num 0)"
| "truthy (PStr s) = (s \<noteq> [])"
| "truthy (PList xs) = (xs \<noteq> [])"
| "truthy (PDict d) = (d \<noteq> [])"

definition py_or :: "pv \<Rightarrow> pv \<Rightarrow> pv" where
  "py_or a b = (if truthy a then a else b)"

text \<open>\<open>d.get(k)\<close>, \<open>d.get(k, dflt)\<close>, \<open>k in d\<close>, \<open>d[k] = v\<close> and \<open>d.setdefault(k, v)\<close> on the items
  of a dictionary. Assignment keeps the position of an existing key and appends a new one.\<close>

definition dget :: "(ustr \<times> pv) list \<Rightarrow> ustr \<Rightarrow> pv" where
  "dget d k = (case map_of d k of None \<Rightarrow> PNone | Some v \<Rightarrow> v)"

definition dget_or :: "(ustr \<times> pv) list \<Rightarrow> ustr \<Rightarrow> pv \<Rightarrow> pv" where
  "dget_or d k dflt = (case map_of d k of None \<Rightarrow> dflt | Some v \<Rightarrow> v)"

definition has_key :: "(ustr \<times> pv) list \<Rightarrow> ustr \<Rightarrow> bool" where
  "has_key d k \<longleftrightarrow> k \<in> fst ` set d"

fun dset :: "(ustr \<times> pv) list \<Rightarrow> ustr \<Rightarrow> pv \<Rightarrow> (ustr \<times> pv) list" where
  "dset [] k v = [(k, v)]"
| "dset ((k', v') # d) k v = (if k' = k then (k, v) # d else (k', v') # dset d k v)"

definition setdefault :: "(ustr \<times> pv) list \<Rightarrow> ustr \<Rightarrow> pv \<Rightarrow> (ustr \<times> pv) list" where
  "setdefault d k v = (if has_key d k then d else d @ [(k, v)])"

fun is_str :: "pv \<Rightarrow> bool" where
  "is_str (PStr s) = True"
| "is_str v = False"

fun is_dict :: "pv \<Rightarrow> bool" where
  "is_dict (PDict d) = True"
| "is_dict v = False"

fun is_list :: "pv \<Rightarrow> bool" where
  "is_list (PList xs) = True"
| "is_list v = False"

fun str_val :: "pv \<Rightarrow> ustr" where
  "str_val (PStr s) = s"
| "str_val v = []"


section \<open>Class registry (\<open>session_store.py\<close>)\<close>

definition DEFECT_CLASSES_RU :: "ustr list" where
  "DEFECT_CLASSES_RU =
    [[1090, 1088, 1077, 1097, 1080, 1085, 1099],
     [1087, 1088, 1086, 1090, 1077, 1095, 1082, 1080, 47, 1074, 1099, 1089, 1086, 1083, 1099],
     [1086, 1075, 1086, 1083, 1077, 1085, 1080, 1077, 32, 1072, 1088, 1084, 1072, 1090, 1091, 1088, 1099],
     [1082, 1086, 1088, 1088, 1086, 1079, 1080, 1103],
     [1089, 1082, 1086, 1083, 1099, 47, 1088, 1072, 1079, 1088, 1091, 1096, 1077, 1085, 1080, 1103],
     [1086, 1090, 1089, 1083, 1086, 1077, 1085, 1080, 1077, 47, 1086, 1073, 1088, 1091, 1096, 1077, 1085, 1080, 1077],
     [1076, 1077, 1092, 1086, 1088, 1084, 1072, 1094, 1080, 1103],
     [1075, 1088, 1080, 1073, 1086, 1082, 47, 1087, 1083, 1077, 1089, 1077, 1085, 1100],
     [1085, 1072, 1088, 1091, 1096, 1077, 1085, 1080, 1077, 32, 1096, 1074, 1086, 1074],
     prochee]"

text \<open>\<open>_norm_cls\<close> and \<open>_norm_key\<close>\<close>

definition norm_cls :: "ustr \<Rightarrow> ustr" where
  "norm_cls name = join_sp (split_ws (strip name))"

definition norm_key :: "pylib \<Rightarrow> ustr \<Rightarrow> ustr" where
  "norm_key L name = lower L (norm_cls name)"

definition classes_doc :: "ustr list \<Rightarrow> pv" where
  "classes_doc xs = PDict [(u ''classes'', PList (map PStr xs))]"

text \<open>\<open>_write_global_classes\<close>; \<open>cp\<close> is the path \<open>_global_classes_file()\<close>.\<close>

definition write_global_classes :: "'p fs \<Rightarrow> 'p \<Rightarrow> ustr list \<Rightarrow> io_error + 'p fs" where
  "write_global_classes fs cp classes = atomic_write_json fs cp (classes_doc classes)"

text \<open>
  \<open>get_global_classes\<close>. The body of the \<open>try\<close> gives \<open>Some\<close> list when it returns and
  \<open>None\<close> when it falls through or raises (a read error, or \<open>data.get\<close> on a value that
  is not a dictionary); the fallback then rewrites the file with the built-in names.
  These hold no surrogate, so this write does not raise (lemma \<open>write_defaults\<close> below)
  and \<open>get_global_classes\<close> always returns.
\<close>

definition read_classes_try :: "'p fs \<Rightarrow> 'p \<Rightarrow> ustr list option" where
  "read_classes_try fs cp =
     (case atomic_read_json fs cp (PDict []) of
        Inl e \<Rightarrow> None
      | Inr (PDict d) \<Rightarrow>
          (case dget d (u ''classes'') of
             PList xs \<Rightarrow>
               if list_all is_str xs \<and> xs \<noteq> [] then
                 (let out = filter (\<lambda>x. x \<noteq> []) (map (\<lambda>x. norm_cls (str_val x)) xs)
                  in Some (if out \<noteq> [] then out else DEFECT_CLASSES_RU))
               else None
           | _ \<Rightarrow> None)
      | Inr _ \<Rightarrow> None)"

definition write_default_classes :: "'p fs \<Rightarrow> 'p \<Rightarrow> ustr list \<times> 'p fs" where
  "write_default_classes fs cp =
     (case write_global_classes fs cp DEFECT_CLASSES_RU of
        Inr fs1 \<Rightarrow> (DEFECT_CLASSES_RU, fs1)
      | Inl e \<Rightarrow> (DEFECT_CLASSES_RU, fs))"

definition get_global_classes :: "'p fs \<Rightarrow> 'p \<Rightarrow> ustr list \<times> 'p fs" where
  "get_global_classes fs cp =
     (if fs cp = None then write_default_classes fs cp
      else case read_classes_try fs cp of
             Some out \<Rightarrow> (out, fs)
           | None \<Rightarrow> write_default_classes fs cp)"

text \<open>\<open>add_global_class\<close> and \<open>rename_global_class\<close> do not catch what \<open>_write_global_classes\<close>
  raises: the result is then the error, and the file is as \<open>get_global_classes\<close> left it.\<close>

definition add_global_class ::
  "pylib \<Rightarrow> 'p fs \<Rightarrow> 'p \<Rightarrow> ustr \<Rightarrow> (io_error + ustr list) \<times> 'p fs" where
  "add_global_class L fs cp name =
     (let cls = norm_cls name in
      if cls = [] then (case get_global_classes fs cp of (cur, fs1) \<Rightarrow> (Inr cur, fs1))
      else
        let (cur, fs1) = get_global_classes fs cp in
        if norm_key L cls \<in> set (map (norm_key L) cur) then (Inr cur, fs1)
        else case write_global_classes fs1 cp (cur @ [cls]) of
               Inl e \<Rightarrow> (Inl e, fs1)
             | Inr fs2 \<Rightarrow> (Inr (cur @ [cls]), fs2))"

text \<open>The loop of \<open>rename_global_class\<close> over \<open>cur\<close>, with its variables \<open>out\<close>, \<open>replaced\<close>
  and \<open>seen\<close>.\<close>

fun rename_loop ::
  "pylib \<Rightarrow> ustr \<Rightarrow> ustr \<Rightarrow> ustr list \<Rightarrow> ustr list \<Rightarrow> bool \<Rightarrow> ustr set \<Rightarrow> ustr list" where
  "rename_loop L a b [] out replaced seen = out"
| "rename_loop L a b (x # cur) out replaced seen =
     (let k = norm_key L x in
      if \<not> replaced \<and> k = norm_key L a then
        (let k2 = norm_key L b in
         if k2 \<in> seen then rename_loop L a b cur out True seen
         else rename_loop L a b cur (out @ [b]) True (insert k2 seen))
      else
        (if k \<in> seen then rename_loop L a b cur out replaced seen
         else rename_loop L a b cur (out @ [x]) replaced (insert k seen)))"

definition rename_global_class ::
  "pylib \<Rightarrow> 'p fs \<Rightarrow> 'p \<Rightarrow> ustr \<Rightarrow> ustr \<Rightarrow> (io_error + ustr list) \<times> 'p fs" where
  "rename_global_class L fs cp frm to =
     (let a = norm_cls frm; b = norm_cls to in
      if a = [] \<or> b = [] then (case get_global_classes fs cp of (cur, fs1) \<Rightarrow> (Inr cur, fs1))
      else
        let (cur, fs1) = get_global_classes fs cp;
            cur_keys = map (norm_key L) cur in
        if norm_key L a \<notin> set cur_keys then
          (if norm_key L b \<notin> set cur_keys
           then (case write_global_classes fs1 cp (cur @ [b]) of
                   Inl e \<Rightarrow> (Inl e, fs1)
                 | Inr fs2 \<Rightarrow> (Inr (cur @ [b]), fs2))
           else (Inr cur, fs1))
        else
          let out0 = rename_loop L a b cur [] False {};
              out = (if out0 = [] then DEFECT_CLASSES_RU else out0)
          in case write_global_classes fs1 cp out of
               Inl e \<Rightarrow> (Inl e, fs1)
             | Inr fs2 \<Rightarrow> (Inr out, fs2))"

text \<open>The list held by the registry file, when the file holds one.\<close>

definition stored_classes :: "'p fs \<Rightarrow> 'p \<Rightarrow> pv list option" where
  "stored_classes fs cp =
     (case fs cp of
        Some (Doc (PDict d)) \<Rightarrow>
          (case dget d (u ''classes'') of PList xs \<Rightarrow> Some xs | _ \<Rightarrow> None)
      | _ \<Rightarrow> None)"

text \<open>Unique under case and whitespace normalisation.\<close>

definition uniq_norm :: "pylib \<Rightarrow> ustr list \<Rightarrow> bool" where
  "uniq_norm L xs \<longleftrightarrow> distinct (map (norm_key L) xs)"

text \<open>
  The registry file holds a non-empty list of strings that is unique under normalisation;
  and the weaker statement that the file, if it holds a list of strings at all, holds a
  unique one (a missing or unreadable file is rewritten by the next operation).
\<close>

definition registry_unique :: "pylib \<Rightarrow> 'p fs \<Rightarrow> 'p \<Rightarrow> bool" where
  "registry_unique L fs cp =
     (case stored_classes fs cp of
        None \<Rightarrow> False
      | Some xs \<Rightarrow> list_all is_str xs \<and> xs \<noteq> [] \<and> uniq_norm L (map str_val xs))"

definition registry_inv :: "pylib \<Rightarrow> 'p fs \<Rightarrow> 'p \<Rightarrow> bool" where
  "registry_inv L fs cp =
     (case stored_classes fs cp of
        None \<Rightarrow> True
      | Some xs \<Rightarrow> \<not> list_all is_str xs \<or> uniq_norm L (map str_val xs))"

text \<open>\<open>_uniq_classes\<close> and \<open>_ensure_prochee_last\<close> of \<open>dataset_builder.py\<close>, through which both
  dataset builders read the registry (\<open>_norm\<close> and \<open>_norm_low\<close> there are \<open>_norm_cls\<close> and
  \<open>_norm_key\<close> again).\<close>

fun uniq_loop :: "pylib \<Rightarrow> ustr list \<Rightarrow> ustr list \<Rightarrow> ustr set \<Rightarrow> ustr list" where
  "uniq_loop L [] out seen = out"
| "uniq_loop L (x # xs) out seen =
     (let nx = norm_cls x in
      if nx = [] then uniq_loop L xs out seen
      else let k = norm_key L nx in
        if k \<in> seen then uniq_loop L xs out seen
        else uniq_loop L xs (out @ [nx]) (insert k seen))"

definition uniq_classes :: "pylib \<Rightarrow> ustr list \<Rightarrow> ustr list" where
  "uniq_classes L xs = uniq_loop L xs [] {}"

definition ensure_prochee_last :: "pylib \<Rightarrow> ustr list \<Rightarrow> ustr list" where
  "ensure_prochee_last L xs =
     filter (\<lambda>x. norm_key L x \<noteq> norm_key L prochee) (uniq_classes L xs) @ [prochee]"


section \<open>Floats\<close>

text \<open>A finite float is represented by the rational it stands for. Comparisons, \<open>max\<close>, \<open>min\<close>
  and the propagation of NaN and the infinities are as in the interpreter; sums and
  differences are taken exactly, without the rounding of the result to the nearest
  double.\<close>

text \<open>\<open>a < b\<close> on floats: false whenever a NaN is involved.\<close>

fun fl_lt :: "fl \<Rightarrow> fl \<Rightarrow> bool" where
  "fl_lt NaN b = False"
| "fl_lt a NaN = False"
| "fl_lt (Num a) (Num b) = (a < b)"
| "fl_lt a NegInf = False"
| "fl_lt NegInf b = True"
| "fl_lt PosInf b = False"
| "fl_lt (Num a) PosInf = True"

text \<open>\<open>a == b\<close> on floats: NaN equals nothing, itself included.\<close>

definition fl_eq :: "fl \<Rightarrow> fl \<Rightarrow> bool" where
  "fl_eq a b \<longleftrightarrow> a \<noteq> NaN \<and> a = b"

definition fl_le :: "fl \<Rightarrow> fl \<Rightarrow> bool" where
  "fl_le a b \<longleftrightarrow> fl_lt a b \<or> fl_eq a b"

fun fl_add :: "fl \<Rightarrow> fl \<Rightarrow> fl" where
  "fl_add NaN b = NaN"
| "fl_add a NaN = NaN"
| "fl_add (Num a) (Num b) = Num (a + b)"
| "fl_add PosInf NegInf = NaN"
| "fl_add NegInf PosInf = NaN"
| "fl_add PosInf b = PosInf"
| "fl_add NegInf b = NegInf"
| "fl_add (Num a) b = b"

fun fl_neg :: "fl \<Rightarrow> fl" where
  "fl_neg (Num a) = Num (- a)"
| "fl_neg PosInf = NegInf"
| "fl_neg NegInf = PosInf"
| "fl_neg NaN = NaN"

definition fl_sub :: "fl \<Rightarrow> fl \<Rightarrow> fl" where
  "fl_sub a b = fl_add a (fl_neg b)"

text \<open>The built-ins \<open>max(a, b)\<close> and \<open>min(a, b)\<close>: the first argument is kept unless the
  second is strictly better.\<close>

definition py_max :: "fl \<Rightarrow> fl \<Rightarrow> fl" where
  "py_max a b = (if fl_lt a b then b else a)"

definition py_min :: "fl \<Rightarrow> fl \<Rightarrow> fl" where
  "py_min a b = (if fl_lt b a then b else a)"

text \<open>\<open>float(v)\<close>; \<open>None\<close> where it raises (TypeError, ValueError, or OverflowError on an
  integer beyond the range of a double).\<close>

definition py_float :: "pylib \<Rightarrow> pv \<Rightarrow> fl option" where
  "py_float L v =
     (case v of
        PFloat f \<Rightarrow> Some f
      | PInt i \<Rightarrow> if \<bar>i\<bar> < 2 ^ 1024 - 2 ^ 970 then Some (Num (of_int i)) else None
      | PBool b \<Rightarrow> Some (Num (if b then 1 else 0))
      | PStr s \<Rightarrow> float_of_str L s
      | _ \<Rightarrow> None)"

text \<open>Decimal digits of a natural number; \<open>str(v)\<close>.\<close>

fun digits_of :: "nat \<Rightarrow> ustr" where
  "digits_of n = (if n < 10 then [48 + n] else digits_of (n div 10) @ [48 + n mod 10])"

declare digits_of.simps [simp del]

definition str_int :: "int \<Rightarrow> ustr" where
  "str_int i = (if i < 0 then 45 # digits_of (nat (- i)) else digits_of (nat i))"

definition py_str :: "pylib \<Rightarrow> pv \<Rightarrow> ustr" where
  "py_str L v =
     (case v of
        PStr s \<Rightarrow> s
      | PNone \<Rightarrow> u ''None''
      | PBool b \<Rightarrow> (if b then u ''True'' else u ''False'')
      | PInt i \<Rightarrow> str_int i
      | _ \<Rightarrow> repr_of L v)"

text \<open>Rounding to the nearest integer, ties to even, as \<open>format\<close> rounds.\<close>

definition round_half_even :: "rat \<Rightarrow> int" where
  "round_half_even r =
     (let f = \<lfloor>r\<rfloor>; d = r - of_int f in
      if d < 1 / 2 then f else if 1 / 2 < d then f + 1
      else if even f then f else f + 1)"


section \<open>Bounding boxes (\<open>session_store.py\<close>)\<close>

text \<open>\<open>_clamp01\<close>, \<open>_round6\<close>, \<open>_safe_float\<close>, \<open>_normalize_xywh\<close>\<close>

definition clamp01 :: "fl \<Rightarrow> fl" where
  "clamp01 x = (if fl_lt x (Num 0) then Num 0 else if fl_lt (Num 1) x then Num 1 else x)"

fun round6 :: "fl \<Rightarrow> fl" where
  "round6 (Num r) = Num (of_int (round_half_even (r * 1000000)) / 1000000)"
| "round6 x = x"

definition safe_float :: "pylib \<Rightarrow> pv \<Rightarrow> fl \<Rightarrow> fl" where
  "safe_float L v dflt = (case py_float L v of Some f \<Rightarrow> f | None \<Rightarrow> dflt)"

definition normalize_xywh :: "fl \<Rightarrow> fl \<Rightarrow> fl \<Rightarrow> fl \<Rightarrow> fl \<times> fl \<times> fl \<times> fl" where
  "normalize_xywh x y w h =
     (let w = py_max (Num 0) w;
          h = py_max (Num 0) h;
          x = clamp01 x;
          y = clamp01 y;
          w = clamp01 w;
          h = clamp01 h;
          x = clamp01 (py_min x (fl_sub (Num 1) w));
          y = clamp01 (py_min y (fl_sub (Num 1) h))
      in (x, y, w, h))"

text \<open>The key of a box in \<open>seen\<close>, and tuple equality on keys.\<close>

type_synonym bkey = "ustr \<times> fl \<times> fl \<times> fl \<times> fl"

fun key_eq :: "bkey \<Rightarrow> bkey \<Rightarrow> bool" where
  "key_eq (c, x, y, w, h) (c', x', y', w', h') \<longleftrightarrow>
     c = c' \<and> fl_eq x x' \<and> fl_eq y y' \<and> fl_eq w w' \<and> fl_eq h h'"

text \<open>One pass of the loop of \<open>dedupe_bboxes\<close> over a dictionary \<open>b\<close>: the box to append
  and its key.\<close>

definition canon_bbox :: "pylib \<Rightarrow> (ustr \<times> pv) list \<Rightarrow> bkey \<times> pv" where
  "canon_bbox L b =
     (let cls0 = py_str L (py_or (py_or (py_or (dget b (u ''cls'')) (dget b (u ''class'')))
                    (dget b (u ''name''))) (PStr []));
          cls = (if norm_cls cls0 \<noteq> [] then norm_cls cls0 else prochee);
          x0 = safe_float L (dget_or b (u ''x'') (PFloat (Num 0))) (Num 0);
          y0 = safe_float L (dget_or b (u ''y'') (PFloat (Num 0))) (Num 0);
          w0 = safe_float L (dget_or b (u ''w'') (PFloat (Num 0))) (Num 0);
          h0 = safe_float L (dget_or b (u ''h'') (PFloat (Num 0))) (Num 0);
          (x1, y1, w1, h1) = normalize_xywh x0 y0 w0 h0;
          x = round6 x1; y = round6 y1; w = round6 w1; h = round6 h1;
          conf0 = dget_or b (u ''conf'') (dget b (u ''confidence''));
          conf = (if conf0 \<noteq> PNone then PFloat (clamp01 (safe_float L conf0 (Num 0))) else PNone)
      in ((norm_key L cls, x, y, w, h),
          PDict [(u ''id'', if dget b (u ''id'') \<noteq> PNone then PStr (py_str L (dget b (u ''id'')))
                           else PNone),
                 (u ''cls'', PStr cls),
                 (u ''x'', PFloat x), (u ''y'', PFloat y), (u ''w'', PFloat w), (u ''h'', PFloat h),
                 (u ''conf'', conf),
                 (u ''source'', dget b (u ''source'')),
                 (u ''polygon'', dget b (u ''polygon''))]))"

fun dedupe_loop :: "pylib \<Rightarrow> pv list \<Rightarrow> bkey list \<Rightarrow> pv list \<Rightarrow> pv list" where
  "dedupe_loop L [] seen out = out"
| "dedupe_loop L (PDict b # bs) seen out =
     (let (key, box) = canon_bbox L b in
      if list_ex (key_eq key) seen then dedupe_loop L bs seen out
      else dedupe_loop L bs (key # seen) (out @ [box]))"
| "dedupe_loop L (v # bs) seen out = dedupe_loop L bs seen out"

definition dedupe_bboxes :: "pylib \<Rightarrow> pv list \<Rightarrow> pv list" where
  "dedupe_bboxes L bboxes = dedupe_loop L bboxes [] []"

text \<open>What the specification asks of a stored coordinate: a number in \<open>[0, 1]\<close>.\<close>

definition unit_fl :: "fl \<Rightarrow> bool" where
  "unit_fl x \<longleftrightarrow> fl_le (Num 0) x \<and> fl_le x (Num 1)"


section \<open>Sessions (\<open>session_store.py\<close>)\<close>



text \<open>The files of the label store: the class registry and one file per session. Session
  ids are taken to be file-name safe, so that distinct ids name distinct files.\<close>

datatype loc = Classes_json | Session_json ustr

text \<open>The body of the loop of \<open>_ensure_session_shape\<close> over \<open>photos\<close>: the repaired entry,
  or \<open>None\<close> where the loop continues without appending.\<close>

definition fix_photo :: "pv \<Rightarrow> pv option" where
  "fix_photo ph =
     (case ph of
        PDict p2 \<Rightarrow>
          if \<not> truthy (dget p2 (u ''photo_id'')) then None
          else
            let labels = (case dget p2 (u ''labels'') of PDict l \<Rightarrow> l | _ \<Rightarrow> []);
                l1 = setdefault labels (u ''has_defect'') PNone;
                l2 = setdefault l1 (u ''decision'') PNone;
                l3 = setdefault l2 (u ''category'') PNone;
                l4 = setdefault l3 (u ''place'') PNone;
                l5 = setdefault l4 (u ''comment'') PNone;
                l6 = setdefault l5 (u ''recommendedFix'') PNone;
                bxs = (case dget l6 (u ''bboxes'') of PList bs \<Rightarrow> bs | _ \<Rightarrow> []);
                labels2 = dset l6 (u ''bboxes'') (PList bxs)
            in Some (PDict (dset p2 (u ''labels'') (PDict labels2)))
      | _ \<Rightarrow> None)"

definition new_session :: "ustr \<Rightarrow> ustr \<Rightarrow> ustr list \<Rightarrow> pv" where
  "new_session session_id now base_classes =
     PDict [(u ''session_id'', PStr session_id), (u ''created_at'', PStr now),
            (u ''classes'', PList (map PStr base_classes)), (u ''photos'', PList [])]"

text \<open>\<open>_ensure_session_shape(s, session_id)\<close>; \<open>now\<close> is what \<open>_now_iso()\<close> returns. The file
  system is returned because \<open>get_global_classes\<close> may create the registry file.\<close>

definition ensure_session_shape ::
  "pylib \<Rightarrow> loc fs \<Rightarrow> ustr \<Rightarrow> pv \<Rightarrow> ustr \<Rightarrow> pv \<times> loc fs" where
  "ensure_session_shape L fs now s session_id =
     (let (base_classes, fs1) = get_global_classes fs Classes_json in
      case s of
        PDict d \<Rightarrow>
          let sid = py_str L (py_or (dget d (u ''session_id'')) (PStr session_id));
              out1 = dset d (u ''session_id'') (PStr sid);
              out2 = (if \<not> truthy (dget out1 (u ''created_at''))
                      then dset out1 (u ''created_at'') (PStr now) else out1);
              out3 = (case dget out2 (u ''classes'') of
                        PList xs \<Rightarrow>
                          let cleaned = filter (\<lambda>x. x \<noteq> [])
                                (map (\<lambda>x. norm_cls (str_val x)) (filter is_str xs))
                          in dset out2 (u ''classes'')
                               (PList (map PStr (if cleaned \<noteq> [] then cleaned else base_classes)))
                      | _ \<Rightarrow> dset out2 (u ''classes'') (PList (map PStr base_classes)));
              photos = (case dget out3 (u ''photos'') of PList phs \<Rightarrow> phs | _ \<Rightarrow> []);
              fixed_photos = List.map_filter fix_photo photos
          in (PDict (dset out3 (u ''photos'') (PList fixed_photos)), fs1)
      | _ \<Rightarrow> (new_session session_id now base_classes, fs1))"



text \<open>A well-formed photo entry: a dictionary with a non-empty \<open>photo_id\<close> whose \<open>labels\<close>
  is a dictionary with a list under \<open>bboxes\<close>. An entry the repair keeps: a dictionary
  with a non-empty \<open>photo_id\<close>.\<close>

definition photo_ok :: "pv \<Rightarrow> bool" where
  "photo_ok ph =
     (case ph of
        PDict p \<Rightarrow> truthy (dget p (u ''photo_id''))
          \<and> (case dget p (u ''labels'') of PDict l \<Rightarrow> is_list (dget l (u ''bboxes'')) | _ \<Rightarrow> False)
      | _ \<Rightarrow> False)"

definition has_photo_id :: "pv \<Rightarrow> bool" where
  "has_photo_id ph = (case ph of PDict p \<Rightarrow> truthy (dget p (u ''photo_id'')) | _ \<Rightarrow> False)"

definition photo_id_of :: "pv \<Rightarrow> pv" where
  "photo_id_of ph = (case ph of PDict p \<Rightarrow> dget p (u ''photo_id'') | _ \<Rightarrow> PNone)"

definition photos_of :: "pv \<Rightarrow> pv list" where
  "photos_of s = (case s of PDict d \<Rightarrow> (case dget d (u ''photos'') of PList phs \<Rightarrow> phs | _ \<Rightarrow> [])
                  | _ \<Rightarrow> [])"



section \<open>Train job ledger (\<open>train_job_store.py\<close>)\<close>

text \<open>\<open>int(v)\<close>; \<open>None\<close> where it raises. A float is truncated towards zero.\<close>

definition py_int :: "pylib \<Rightarrow> pv \<Rightarrow> int option" where
  "py_int L v =
     (case v of
        PInt i \<Rightarrow> Some i
      | PBool b \<Rightarrow> Some (if b then 1 else 0)
      | PFloat (Num r) \<Rightarrow> Some (if 0 \<le> r then \<lfloor>r\<rfloor> else \<lceil>r\<rceil>)
      | PStr s \<Rightarrow> int_of_str L s
      | _ \<Rightarrow> None)"

text \<open>
  The module constants \<open>SERVER_BOOT_ID\<close> and \<open>JOB_STALE_SEC\<close>. Job files are addressed by
  job id (\<open>job_path\<close>: ids are taken to be file-name safe). A log path names nothing, a
  directory or a regular file, each with its modification time in seconds. \<open>now\<close> is the
  clock in nanoseconds, read once per call: \<open>time.time_ns()\<close> is \<open>now\<close> and \<open>time.time()\<close>
  is \<open>now / 1e9\<close>.
\<close>

record jcfg =
  SERVER_BOOT_ID :: ustr
  JOB_STALE_SEC :: int

datatype lnode = LDir rat | LFile rat

type_synonym logs = "ustr \<Rightarrow> lnode option"

definition LOST_MESSAGE :: ustr where
  "LOST_MESSAGE =
    [1057, 1077, 1088, 1074, 1080, 1089, 32, 1073, 1099, 1083, 32, 1087, 1077, 1088, 1077,
     1079, 1072, 1087, 1091, 1097, 1077, 1085, 32, 1080, 1083, 1080, 32, 1089, 1090, 1072,
     1090, 1091, 1089, 32, 1095, 1080, 1090, 1072, 1077, 1090, 1089, 1103, 32, 1080, 1079,
     32, 1076, 1088, 1091, 1075, 1086, 1075, 1086, 32, 1074, 1086, 1088, 1082, 1077, 1088,
     1072, 46, 32, 1069, 1090, 1086, 1090, 32, 106, 111, 98, 32, 1073, 1086, 1083, 1100,
     1096, 1077, 32, 1085, 1077, 32, 1086, 1090, 1089, 1083, 1077, 1078, 1080, 1074, 1072,
     1077, 1090, 1089, 1103, 32, 1074, 32, 1090, 1077, 1082, 1091, 1097, 1077, 1084, 32,
     1087, 1088, 1086, 1094, 1077, 1089, 1089, 1077, 46, 32, 1055, 1088, 1086, 1074, 1077,
     1088, 1100, 32, 1083, 1086, 1075, 32, 1080, 32, 1079, 1072, 1087, 1091, 1089, 1090,
     1080, 32, 1086, 1073, 1091, 1095, 1077, 1085, 1080, 1077, 32, 1079, 1072, 1085, 1086,
     1074, 1086, 32, 1087, 1088, 1080, 32, 1085, 1077, 1086, 1073, 1093, 1086, 1076, 1080,
     1084, 1086, 1089, 1090, 1080, 46]"

text \<open>\<open>_load_json\<close>: \<open>None\<close> for a missing file and for every exception.\<close>

definition load_json :: "'p fs \<Rightarrow> 'p \<Rightarrow> pv" where
  "load_json fs p = (case fs p of Some (Doc v) \<Rightarrow> v | _ \<Rightarrow> PNone)"

text \<open>\<open>str(job.get(k) or "").strip()\<close>\<close>

definition job_str :: "pylib \<Rightarrow> (ustr \<times> pv) list \<Rightarrow> ustr \<Rightarrow> ustr" where
  "job_str L job k = strip (py_str L (py_or (dget job k) (PStr [])))"

text \<open>An integer that converts to a float: beyond this range the conversion raises
  \<open>OverflowError\<close>.\<close>

definition fits_double :: "int \<Rightarrow> bool" where
  "fits_double i \<longleftrightarrow> \<bar>i\<bar> < 2 ^ 1024 - 2 ^ 970"

text \<open>\<open>_job_last_update_age_sec\<close>, in seconds. Every exception gives \<open>1e18\<close>: \<open>int\<close> raising,
  and the division raising on a difference that does not convert to a float. The
  quotient itself is taken exactly.\<close>

definition job_last_update_age_sec :: "pylib \<Rightarrow> int \<Rightarrow> (ustr \<times> pv) list \<Rightarrow> rat" where
  "job_last_update_age_sec L now job =
     (case py_int L (py_or (py_or (dget job (u ''updated_at_ns'')) (dget job (u ''created_at_ns'')))
                      (PInt 0)) of
        None \<Rightarrow> 10 ^ 18
      | Some last_ns \<Rightarrow>
          if last_ns \<le> 0 then 10 ^ 18
          else if \<not> fits_double (now - last_ns) then 10 ^ 18
          else max 0 (of_int (now - last_ns) / 1000000000))"

text \<open>The log test of \<open>_maybe_mark_lost\<close>: the path is non-empty, names a regular file, and
  the file is at most \<open>JOB_STALE_SEC\<close> old. An exception inside the test (here
  \<open>float(JOB_STALE_SEC)\<close> raising) is passed over, and the log then does not count.\<close>

definition log_fresh :: "jcfg \<Rightarrow> logs \<Rightarrow> int \<Rightarrow> ustr \<Rightarrow> bool" where
  "log_fresh cfg lg now raw_log =
     (raw_log \<noteq> [] \<and>
      (case lg raw_log of
         Some (LFile mtime) \<Rightarrow>
           fits_double (JOB_STALE_SEC cfg)
           \<and> of_int now / 1000000000 - mtime \<le> of_int (JOB_STALE_SEC cfg)
       | _ \<Rightarrow> False))"

text \<open>\<open>_maybe_mark_lost\<close> of \<open>backend/app/services/train_job_store.py\<close>. The whole body is
  inside a \<open>try\<close> whose handler returns \<open>job\<close>: when \<open>float(JOB_STALE_SEC)\<close> raises in the
  age test the record is returned as it is, and when the write raises the record, which
  has been marked by then, is returned and the file is left as it was.\<close>

definition maybe_mark_lost ::
  "pylib \<Rightarrow> jcfg \<Rightarrow> ustr fs \<Rightarrow> logs \<Rightarrow> int \<Rightarrow> (ustr \<times> pv) list \<Rightarrow> pv \<times> ustr fs" where
  "maybe_mark_lost L cfg jobs lg now job =
     (let status = lower L (job_str L job (u ''status'')) in
      if status \<notin> {u ''queued'', u ''running''} then (PDict job, jobs)
      else if job_str L job (u ''boot_id'') = SERVER_BOOT_ID cfg then (PDict job, jobs)
      else if log_fresh cfg lg now (job_str L job (u ''log_path'')) then (PDict job, jobs)
      else if \<not> fits_double (JOB_STALE_SEC cfg) then (PDict job, jobs)
      else if job_last_update_age_sec L now job \<le> of_int (JOB_STALE_SEC cfg) then (PDict job, jobs)
      else
        let job_id = job_str L job (u ''job_id'');
            j1 = dset job (u ''status'') (PStr (u ''error''));
            j2 = dset j1 (u ''lost'') (PBool True);
            j3 = dset j2 (u ''error_code'') (PStr (u ''lost_after_restart''));
            j4 = dset j3 (u ''message'') (PStr LOST_MESSAGE);
            j5 = dset j4 (u ''updated_at_ns'') (PInt now)
        in (PDict j5,
            if job_id \<noteq> []
            then (case atomic_write_json jobs job_id (PDict j5) of Inl e \<Rightarrow> jobs | Inr jobs1 \<Rightarrow> jobs1)
            else jobs))"

text \<open>\<open>get_job\<close>\<close>

definition get_job ::
  "pylib \<Rightarrow> jcfg \<Rightarrow> ustr fs \<Rightarrow> logs \<Rightarrow> int \<Rightarrow> ustr \<Rightarrow> pv \<times> ustr fs" where
  "get_job L cfg jobs lg now job_id =
     (let jid = strip job_id in
      if jid = [] then (PDict [], jobs)
      else case load_json jobs jid of
             PDict data \<Rightarrow> maybe_mark_lost L cfg jobs lg now data
           | _ \<Rightarrow> (PDict [], jobs))"

text \<open>
  The older copy of the module, \<open>app/services/train_job_store.py\<close>: no \<open>strip\<close> or \<open>lower\<close>,
  any existing path counts as a log, there is no test of the record's own age, and the
  mark is the status \<open>lost\<close>.
\<close>

definition old_job_str :: "pylib \<Rightarrow> (ustr \<times> pv) list \<Rightarrow> ustr \<Rightarrow> ustr" where
  "old_job_str L job k = py_str L (py_or (dget job k) (PStr []))"

definition old_log_fresh :: "jcfg \<Rightarrow> logs \<Rightarrow> int \<Rightarrow> ustr \<Rightarrow> bool" where
  "old_log_fresh cfg lg now raw_log =
     (case lg raw_log of
        Some (LFile mtime) \<Rightarrow>
          fits_double (JOB_STALE_SEC cfg)
          \<and> of_int now / 1000000000 - mtime \<le> of_int (JOB_STALE_SEC cfg)
      | Some (LDir mtime) \<Rightarrow>
          fits_double (JOB_STALE_SEC cfg)
          \<and> of_int now / 1000000000 - mtime \<le> of_int (JOB_STALE_SEC cfg)
      | None \<Rightarrow> False)"

definition old_maybe_mark_lost ::
  "pylib \<Rightarrow> jcfg \<Rightarrow> ustr fs \<Rightarrow> logs \<Rightarrow> int \<Rightarrow> (ustr \<times> pv) list \<Rightarrow> pv \<times> ustr fs" where
  "old_maybe_mark_lost L cfg jobs lg now job =
     (let status = old_job_str L job (u ''status'') in
      if status \<notin> {u ''queued'', u ''running''} then (PDict job, jobs)
      else if old_job_str L job (u ''boot_id'') = SERVER_BOOT_ID cfg then (PDict job, jobs)
      else if old_log_fresh cfg lg now (old_job_str L job (u ''log_path'')) then (PDict job, jobs)
      else
        let job_id = old_job_str L job (u ''job_id'');
            j1 = dset job (u ''status'') (PStr (u ''lost''));
            j2 = dset j1 (u ''message'') (PStr LOST_MESSAGE);
            j3 = dset j2 (u ''updated_at_ns'') (PInt now)
        in (PDict j3,
            if job_id \<noteq> []
            then (case atomic_write_json jobs job_id (PDict j3) of Inl e \<Rightarrow> jobs | Inr jobs1 \<Rightarrow> jobs1)
            else jobs))"

definition old_get_job ::
  "pylib \<Rightarrow> jcfg \<Rightarrow> ustr fs \<Rightarrow> logs \<Rightarrow> int \<Rightarrow> ustr \<Rightarrow> pv \<times> ustr fs" where
  "old_get_job L cfg jobs lg now job_id =
     (let jid = strip job_id in
      if jid = [] then (PDict [], jobs)
      else case load_json jobs jid of
             PDict data \<Rightarrow> old_maybe_mark_lost L cfg jobs lg now data
           | _ \<Rightarrow> (PDict [], jobs))"

text \<open>A field of a returned record.\<close>

definition field :: "pv \<Rightarrow> ustr \<Rightarrow> pv" where
  "field v k = (case v of PDict d \<Rightarrow> dget d k | _ \<Rightarrow> PNone)"


section \<open>Dataset directories (\<open>dataset_builder.py\<close>)\<close>

text \<open>
  A file of a dataset directory: its contents (bytes of an image, characters of a label
  file) and its modification time. A split directory is the list of its entries in the
  order the operating system enumerates them; the builders put regular files only there.
  A dataset has the four directories \<open>images/train\<close>, \<open>images/val\<close>, \<open>labels/train\<close>,
  \<open>labels/val\<close>.
\<close>

record dfile =
  data :: "nat list"
  mtime_ns :: int

type_synonym dir = "(ustr \<times> dfile) list"

record corpus =
  images_train :: dir
  images_val :: dir
  labels_train :: dir
  labels_val :: dir

datatype split = Train | Val

definition split_name :: "split \<Rightarrow> ustr" where
  "split_name sp = (case sp of Train \<Rightarrow> u ''train'' | Val \<Rightarrow> u ''val'')"

definition images_of :: "corpus \<Rightarrow> split \<Rightarrow> dir" where
  "images_of c sp = (case sp of Train \<Rightarrow> images_train c | Val \<Rightarrow> images_val c)"

definition labels_of :: "corpus \<Rightarrow> split \<Rightarrow> dir" where
  "labels_of c sp = (case sp of Train \<Rightarrow> labels_train c | Val \<Rightarrow> labels_val c)"

definition set_images :: "corpus \<Rightarrow> split \<Rightarrow> dir \<Rightarrow> corpus" where
  "set_images c sp d = (case sp of Train \<Rightarrow> c\<lparr>images_train := d\<rparr> | Val \<Rightarrow> c\<lparr>images_val := d\<rparr>)"

definition set_labels :: "corpus \<Rightarrow> split \<Rightarrow> dir \<Rightarrow> corpus" where
  "set_labels c sp d = (case sp of Train \<Rightarrow> c\<lparr>labels_train := d\<rparr> | Val \<Rightarrow> c\<lparr>labels_val := d\<rparr>)"

text \<open>Writing a file into a directory replaces the entry of that name or adds one.\<close>

fun put :: "dir \<Rightarrow> ustr \<Rightarrow> dfile \<Rightarrow> dir" where
  "put [] n f = [(n, f)]"
| "put ((n', f') # d) n f = (if n' = n then (n, f) # d else (n', f') # put d n f)"

text \<open>\<open>Path.suffix\<close> and \<open>Path.stem\<close> of a file name: the last dot counts unless it is the
  first or the last character.\<close>

definition last_dot :: "ustr \<Rightarrow> nat option" where
  "last_dot name =
     (let k = length (takeWhile (\<lambda>c. c \<noteq> 46) (rev name)) in
      if k = length name then None else Some (length name - 1 - k))"

definition suffix :: "ustr \<Rightarrow> ustr" where
  "suffix name =
     (case last_dot name of
        Some i \<Rightarrow> if 0 < i \<and> i < length name - 1 then drop i name else []
      | None \<Rightarrow> [])"

definition stem :: "ustr \<Rightarrow> ustr" where
  "stem name =
     (case last_dot name of
        Some i \<Rightarrow> if 0 < i \<and> i < length name - 1 then take i name else name
      | None \<Rightarrow> name)"

definition IMAGE_EXTS :: "ustr list" where
  "IMAGE_EXTS = [u ''jpg'', u ''jpeg'', u ''png'', u ''bmp'', u ''webp'', u ''tif'', u ''tiff'',
                 u ''heic'', u ''dng'', u ''mpo'', u ''pfm'']"

text \<open>\<open>_is_image_file\<close>, \<open>_list_images\<close>, \<open>_list_labels\<close> (the pattern \<open>*.txt\<close>)\<close>

definition is_image_file :: "pylib \<Rightarrow> ustr \<Rightarrow> bool" where
  "is_image_file L name \<longleftrightarrow> dropWhile (\<lambda>c. c = 46) (lower L (suffix name)) \<in> set IMAGE_EXTS"

definition list_images :: "pylib \<Rightarrow> dir \<Rightarrow> ustr list" where
  "list_images L d = filter (is_image_file L) (map fst d)"

definition ends_with :: "ustr \<Rightarrow> ustr \<Rightarrow> bool" where
  "ends_with sfx name \<longleftrightarrow> length sfx \<le> length name \<and> drop (length name - length sfx) name = sfx"

definition list_labels :: "dir \<Rightarrow> ustr list" where
  "list_labels d = filter (ends_with (u ''.txt'')) (map fst d)"

text \<open>The dictionary \<open>{p.stem: p for p in _list_labels(d)}\<close>: a later file of the same stem
  replaces an earlier one.\<close>

definition lbls_get :: "ustr list \<Rightarrow> ustr \<Rightarrow> ustr option" where
  "lbls_get lbls st = map_of (rev (map (\<lambda>n. (stem n, n)) lbls)) st"

text \<open>\<open>pick_pair\<close>: the first image whose label exists; \<open>lbl_dir\<close> is the directory of the
  labels as it is when the pair is picked.\<close>

fun pick_pair :: "ustr list \<Rightarrow> ustr list \<Rightarrow> dir \<Rightarrow> (ustr \<times> ustr) option" where
  "pick_pair [] lbls lbl_dir = None"
| "pick_pair (img # imgs) lbls lbl_dir =
     (case lbls_get lbls (stem img) of
        Some lbl \<Rightarrow> if lbl \<in> fst ` set lbl_dir then Some (img, lbl) else pick_pair imgs lbls lbl_dir
      | None \<Rightarrow> pick_pair imgs lbls lbl_dir)"

text \<open>\<open>str(p.relative_to(dataset_dir)).replace("\\", "/")\<close> for a file of a split directory.\<close>

definition rel_path :: "ustr \<Rightarrow> split \<Rightarrow> ustr \<Rightarrow> ustr" where
  "rel_path kind sp name =
     map (\<lambda>c. if c = 92 then 47 else c) (kind @ [47] @ split_name sp @ [47] @ name)"

text \<open>The search of \<open>_copy_pair\<close> through the manifest for the entry of the source files.\<close>

fun find_key :: "pylib \<Rightarrow> (ustr \<times> pv) list \<Rightarrow> ustr \<Rightarrow> ustr \<Rightarrow> ustr option" where
  "find_key L [] src_rel_lbl src_rel_img = None"
| "find_key L ((k, PDict v) # m) src_rel_lbl src_rel_img =
     (if py_str L (py_or (dget v (u ''label'')) (PStr [])) = src_rel_lbl then Some k
      else if py_str L (py_or (dget v (u ''image'')) (PStr [])) = src_rel_img then Some k
      else find_key L m src_rel_lbl src_rel_img)"
| "find_key L ((k, v) # m) src_rel_lbl src_rel_img = find_key L m src_rel_lbl src_rel_img"

text \<open>
  \<open>_copy_pair\<close>: copies the image, then the label, from split \<open>src\<close> to split \<open>dst\<close> and
  points the manifest entry at the copies. The result carries the return value; a source
  file that cannot be read makes \<open>shutil.copy2\<close> raise, which returns \<open>False\<close> with
  whatever was copied before.
\<close>

definition copy_pair ::
  "pylib \<Rightarrow> corpus \<Rightarrow> (ustr \<times> pv) list \<Rightarrow> split \<Rightarrow> ustr \<Rightarrow> ustr \<Rightarrow> split
     \<Rightarrow> corpus \<times> (ustr \<times> pv) list \<times> bool" where
  "copy_pair L c manifest src src_img src_lbl dst =
     (case map_of (images_of c src) src_img of
        None \<Rightarrow> (c, manifest, False)
      | Some fimg \<Rightarrow>
          let c1 = set_images c dst (put (images_of c dst) src_img fimg) in
          (case map_of (labels_of c1 src) src_lbl of
             None \<Rightarrow> (c1, manifest, False)
           | Some flbl \<Rightarrow>
               let c2 = set_labels c1 dst (put (labels_of c1 dst) src_lbl flbl);
                   rel_img = rel_path (u ''images'') dst src_img;
                   rel_lbl = rel_path (u ''labels'') dst src_lbl;
                   src_rel_lbl = rel_path (u ''labels'') src src_lbl;
                   src_rel_img = rel_path (u ''images'') src src_img
               in (case find_key L manifest src_rel_lbl src_rel_img of
                     Some found_key \<Rightarrow>
                       if found_key \<noteq> [] then
                         let cur = (case dget manifest found_key of PDict d \<Rightarrow> d | _ \<Rightarrow> []);
                             cur1 = dset cur (u ''split'') (PStr (split_name dst));
                             cur2 = dset cur1 (u ''image'') (PStr rel_img);
                             cur3 = dset cur2 (u ''label'') (PStr rel_lbl)
                         in (c2, dset manifest found_key (PDict cur3), True)
                       else (c2, manifest, True)
                   | None \<Rightarrow> (c2, manifest, True))))"

text \<open>\<open>_ensure_nonempty_train_val\<close>\<close>

definition ensure_nonempty_train_val ::
  "pylib \<Rightarrow> corpus \<Rightarrow> (ustr \<times> pv) list \<Rightarrow> corpus \<times> (ustr \<times> pv) list" where
  "ensure_nonempty_train_val L c manifest =
     (let train_imgs = list_images L (images_train c);
          val_imgs = list_images L (images_val c);
          train_lbls = list_labels (labels_train c);
          val_lbls = list_labels (labels_val c);
          (c1, m1) =
            (if val_imgs = [] \<and> train_imgs \<noteq> [] then
               (case pick_pair train_imgs train_lbls (labels_train c) of
                  Some (src_img, src_lbl) \<Rightarrow>
                    (case copy_pair L c manifest Train src_img src_lbl Val of (c', m', ok) \<Rightarrow> (c', m'))
                | None \<Rightarrow> (c, manifest))
             else (c, manifest));
          train_imgs2 = list_images L (images_train c1);
          val_imgs2 = list_images L (images_val c1)
      in if train_imgs2 = [] \<and> val_imgs2 \<noteq> [] then
           (case pick_pair val_imgs2 val_lbls (labels_val c1) of
              Some (src_img, src_lbl) \<Rightarrow>
                (case copy_pair L c1 m1 Val src_img src_lbl Train of (c', m', ok) \<Rightarrow> (c', m'))
            | None \<Rightarrow> (c1, m1))
         else (c1, m1))"

text \<open>Some image of the first directory has a label file of the same stem in the second.\<close>

definition has_pair :: "pylib \<Rightarrow> dir \<Rightarrow> dir \<Rightarrow> bool" where
  "has_pair L di dl =
     list_ex (\<lambda>img. list_ex (\<lambda>lbl. stem lbl = stem img) (list_labels dl)) (list_images L di)"

definition empty_corpus :: corpus where
  "empty_corpus = \<lparr> images_train = [], images_val = [], labels_train = [], labels_val = [] \<rparr>"


chapter \<open>Results\<close>


section \<open>Device resolution: results\<close>

lemma u_simps [simp]: "u [] = []" "u (c # cs) = of_char c # u cs"
  by (simp_all add: u_def)

lemma resolve_device_cpu:
  "lower L (strip (if d = [] then u ''auto'' else d)) = u ''cpu'' \<Longrightarrow>
     resolve_device L d t = (u ''cpu'', False)"
  by (simp add: resolve_device_def)

lemma resolve_device_auto:
  "lower L (strip (if d = [] then u ''auto'' else d)) \<in> {u ''auto'', u ''cuda'', u ''gpu''} \<Longrightarrow>
     resolve_device L d t =
       (if cuda_usable t = Some True then (u ''0'', False) else (u ''cpu'', True))"
  by (auto simp: resolve_device_def split: option.splits bool.splits)

text \<open>
  C7. With \<open>INFER_DEVICE = "5"\<close> on a machine whose probe reports one CUDA device,
  \<open>_resolve_device\<close> returns the requested index \<open>"5"\<close> unchanged and no fallback flag: the
  index is not compared with the device count, and index 0 is not substituted.
\<close>

theorem resolve_device_index_not_checked:
  "resolve_device stdlib (u ''5'') (Probe True 1) = (u ''5'', False)"
  by (simp add: resolve_device_def stdlib_def strip_def isspace_def lower_cp_def cuda_usable_def)


section \<open>Atomic record store: results\<close>

text \<open>
  C1 (as stated). The claim says that with a default supplied a corrupt file yields the
  default. It does not: the path exists, the text is not blank, and \<open>json.loads\<close> raises.
\<close>

theorem atomic_read_json_corrupt_counterexample:
  "\<not> (atomic_read_json ((\<lambda>_. None)(''classes.json'' \<mapsto> Garbage)) ''classes.json'' (PDict [])
        = Inr (PDict []))"
  by (simp add: atomic_read_json_def read_text_def json_loads_def)

text \<open>
  C1 (amended). With a default \<open>d\<close> other than \<open>None\<close>, \<open>atomic_read_json\<close> returns \<open>d\<close>
  when the file is missing and when its text is empty or whitespace, without raising;
  on text that is not JSON it raises the decoder's error instead of returning \<open>d\<close>.
\<close>

theorem atomic_read_json_default:
  assumes "d \<noteq> PNone"
  shows "(fs p = None \<longrightarrow> atomic_read_json fs p d = Inr d)
       \<and> (fs p = Some (Blank) \<longrightarrow> atomic_read_json fs p d = Inr d)
       \<and> (fs p = Some (Garbage) \<longrightarrow> atomic_read_json fs p d = Inl JSONDecodeError)"
  using assms by (simp add: atomic_read_json_def read_text_def json_loads_def)

theorem atomic_read_json_default_witness:
  "PDict [] \<noteq> PNone
   \<and> atomic_read_json (\<lambda>_. None) ''s.json'' (PDict []) = Inr (PDict [])
   \<and> atomic_read_json ((\<lambda>_. None)(''t.json'' \<mapsto> Blank)) ''t.json'' (PDict []) = Inr (PDict [])
   \<and> atomic_read_json ((\<lambda>_. None)(''c.json'' \<mapsto> Garbage)) ''c.json'' (PDict [])
       = Inl JSONDecodeError"
  using atomic_read_json_default [of "PDict []" "\<lambda>_. None" "''s.json''"]
    atomic_read_json_default [of "PDict []" "(\<lambda>_. None)(''t.json'' \<mapsto> Blank)" "''t.json''"]
    atomic_read_json_default [of "PDict []" "(\<lambda>_. None)(''c.json'' \<mapsto> Garbage)" "''c.json''"]
  by simp


section \<open>Class registry: results\<close>

lemma split_acc_words:
  "spacefree w \<Longrightarrow> list_all (\<lambda>v. v \<noteq> [] \<and> spacefree v) (split_acc s w)"
  by (induction s arbitrary: w) (simp_all add: spacefree_def)

lemma split_acc_append:
  "spacefree v \<Longrightarrow> split_acc (v @ s) w = split_acc s (w @ v)"
  by (induction v arbitrary: w) (auto simp: spacefree_def)

lemma isspace_32 [simp]: "isspace 32"
  by (simp add: isspace_def)

lemma split_join:
  "(\<forall>v\<in>set ws. v \<noteq> [] \<and> spacefree v) \<Longrightarrow> split_acc (join_sp ws) [] = ws"
proof (induction ws rule: join_sp.induct)
  case 1
  then show ?case by simp
next
  case (2 w)
  then show ?case using split_acc_append [of w "[]" "[]"] by simp
next
  case (3 w v ws)
  then show ?case using split_acc_append [of w "32 # join_sp (v # ws)" "[]"] by simp
qed

lemma join_ends:
  "ws \<noteq> [] \<Longrightarrow> (\<forall>v\<in>set ws. v \<noteq> [] \<and> spacefree v) \<Longrightarrow>
     join_sp ws \<noteq> [] \<and> \<not> isspace (hd (join_sp ws)) \<and> \<not> isspace (last (join_sp ws))"
proof (induction ws rule: join_sp.induct)
  case 1
  then show ?case by simp
next
  case (2 w)
  then show ?case using hd_in_set [of w] last_in_set [of w] by (auto simp: spacefree_def)
next
  case (3 w v ws)
  then show ?case by (cases w) (auto simp: spacefree_def)
qed

lemma dropWhile_hd: "xs \<noteq> [] \<Longrightarrow> \<not> P (hd xs) \<Longrightarrow> dropWhile P xs = xs"
  by (cases xs) auto

lemma strip_join:
  assumes "\<forall>v\<in>set ws. v \<noteq> [] \<and> spacefree v"
  shows "strip (join_sp ws) = join_sp ws"
proof (cases "ws = []")
  case True
  then show ?thesis by (simp add: strip_def)
next
  case False
  from join_ends [OF False assms]
  have ne: "join_sp ws \<noteq> []" and h: "\<not> isspace (hd (join_sp ws))"
    and l: "\<not> isspace (last (join_sp ws))" by auto
  have "dropWhile isspace (join_sp ws) = join_sp ws" using ne h by (rule dropWhile_hd)
  moreover have "dropWhile isspace (rev (join_sp ws)) = rev (join_sp ws)"
    using ne l by (intro dropWhile_hd) (auto simp: hd_rev)
  ultimately show ?thesis by (simp add: strip_def)
qed

lemma norm_cls_idem: "norm_cls (norm_cls s) = norm_cls s"
proof -
  let ?W = "split_ws (strip s)"
  have W: "\<forall>v\<in>set ?W. v \<noteq> [] \<and> spacefree v"
    using split_acc_words [of "[]" "strip s"] by (simp add: split_ws_def spacefree_def list_all_iff)
  show ?thesis
    using strip_join [OF W] split_join [OF W] by (simp add: norm_cls_def split_ws_def)
qed

lemma norm_key_norm_cls: "norm_key L (norm_cls s) = norm_key L s"
  by (simp add: norm_key_def norm_cls_idem)

lemma rename_loop_distinct:
  "distinct (map (norm_key L) out) \<Longrightarrow> seen = norm_key L ` set out \<Longrightarrow>
     distinct (map (norm_key L) (rename_loop L a b cur out replaced seen))"
proof (induction cur arbitrary: out replaced seen)
  case Nil
  then show ?case by simp
next
  case (Cons x cur)
  show ?case
    using Cons.prems by (auto simp: Let_def intro!: Cons.IH)
qed

lemma uniq_loop_distinct:
  "distinct (map (norm_key L) out) \<Longrightarrow> seen = norm_key L ` set out \<Longrightarrow>
     distinct (map (norm_key L) (uniq_loop L xs out seen))"
proof (induction xs arbitrary: out seen)
  case Nil
  then show ?case by simp
next
  case (Cons x xs)
  show ?case
    using Cons.prems by (auto simp: Let_def norm_key_norm_cls intro!: Cons.IH)
qed


lemma stored_write:
  "write_global_classes fs cp xs = Inr fs2 \<Longrightarrow> stored_classes fs2 cp = Some (map PStr xs)"
  by (auto simp: stored_classes_def write_global_classes_def atomic_write_json_def classes_doc_def
      dget_def split: if_splits)

lemma write_raises:
  "write_global_classes fs cp xs = Inl e \<Longrightarrow> e = UnicodeEncodeError"
  by (auto simp: write_global_classes_def atomic_write_json_def split: if_splits)

lemma write_other:
  "write_global_classes fs cp xs = Inr fs2 \<Longrightarrow> q \<noteq> cp \<Longrightarrow> fs2 q = fs q"
  by (auto simp: write_global_classes_def atomic_write_json_def split: if_splits)

lemma write_defaults:
  "write_default_classes fs cp
     = (DEFECT_CLASSES_RU, fs(cp \<mapsto> Doc (classes_doc DEFECT_CLASSES_RU)))"
  by (simp add: write_default_classes_def write_global_classes_def atomic_write_json_def
      classes_doc_def DEFECT_CLASSES_RU_def prochee_def surrogate_free_def)

lemma stored_defaults:
  "stored_classes (snd (write_default_classes fs cp)) cp = Some (map PStr DEFECT_CLASSES_RU)"
  by (simp add: write_defaults stored_classes_def classes_doc_def dget_def)

lemma fst_write_defaults [simp]: "fst (write_default_classes fs cp) = DEFECT_CLASSES_RU"
  by (simp add: write_defaults)

lemma str_val_PStr [simp]: "map str_val (map PStr xs) = xs" "map (str_val \<circ> PStr) xs = xs"
  by (induction xs) auto

lemma all_str_PStr [simp]: "list_all is_str (map PStr xs)"
  by (induction xs) auto

lemma unique_write:
  "xs \<noteq> [] \<Longrightarrow> uniq_norm L xs \<Longrightarrow> write_global_classes fs cp xs = Inr fs2 \<Longrightarrow>
     registry_unique L fs2 cp"
  by (simp add: registry_unique_def stored_write)

lemma DEFECT_nonempty [simp]: "DEFECT_CLASSES_RU \<noteq> []"
  by (simp add: DEFECT_CLASSES_RU_def)

lemma uniq_norm_filter_map:
  "uniq_norm L xs \<Longrightarrow> uniq_norm L (filter P (map norm_cls xs))"
  by (simp add: uniq_norm_def distinct_map_filter comp_def norm_key_norm_cls)

lemma read_classes_try_Some:
  assumes "read_classes_try fs cp = Some out"
  obtains xs where "stored_classes fs cp = Some xs" "list_all is_str xs" "xs \<noteq> []"
    "out = (let o1 = filter (\<lambda>x. x \<noteq> []) (map norm_cls (map str_val xs))
            in if o1 \<noteq> [] then o1 else DEFECT_CLASSES_RU)"
  using assms
  by (auto simp: read_classes_try_def atomic_read_json_def read_text_def json_loads_def
      stored_classes_def dget_def Let_def comp_def
      split: option.splits content.splits pv.splits if_splits sum.splits)

lemma get_global_classes_post:
  assumes lib: "uniq_norm L DEFECT_CLASSES_RU" and inv: "registry_inv L fs cp"
  shows "registry_unique L (snd (get_global_classes fs cp)) cp
       \<and> uniq_norm L (fst (get_global_classes fs cp))
       \<and> fst (get_global_classes fs cp) \<noteq> []"
proof (cases "fs cp = None \<or> read_classes_try fs cp = None")
  case True
  then show ?thesis
    using lib by (auto simp: get_global_classes_def registry_unique_def stored_defaults)
next
  case False
  then obtain out where out: "read_classes_try fs cp = Some out" and ex: "fs cp \<noteq> None" by auto
  from out obtain xs where xs: "stored_classes fs cp = Some xs" "list_all is_str xs" "xs \<noteq> []"
    "out = (let o1 = filter (\<lambda>x. x \<noteq> []) (map norm_cls (map str_val xs))
            in if o1 \<noteq> [] then o1 else DEFECT_CLASSES_RU)"
    by (rule read_classes_try_Some)
  from inv xs have u: "uniq_norm L (map str_val xs)" by (simp add: registry_inv_def)
  have "uniq_norm L out"
    using xs(4) lib uniq_norm_filter_map [OF u] by (simp add: Let_def)
  moreover have "out \<noteq> []" using xs(4) by (simp add: Let_def)
  moreover have "registry_unique L fs cp" using xs u by (simp add: registry_unique_def)
  ultimately show ?thesis using out ex by (auto simp: get_global_classes_def)
qed

lemma uniq_norm_snoc:
  "uniq_norm L xs \<Longrightarrow> norm_key L x \<notin> set (map (norm_key L) xs) \<Longrightarrow> uniq_norm L (xs @ [x])"
  by (simp add: uniq_norm_def)

lemma write_result_post:
  assumes "uniq_norm L xs" "xs \<noteq> []" "registry_unique L fs1 cp"
  shows "registry_unique L (snd (case write_global_classes fs1 cp xs of
                                  Inl e \<Rightarrow> (Inl e, fs1) | Inr fs2 \<Rightarrow> (Inr xs, fs2))) cp
       \<and> (case fst (case write_global_classes fs1 cp xs of
                       Inl e \<Rightarrow> (Inl e, fs1) | Inr fs2 \<Rightarrow> (Inr xs, fs2)) of
            Inr r \<Rightarrow> uniq_norm L r \<and> r \<noteq> []
          | Inl e \<Rightarrow> e = UnicodeEncodeError)"
proof (cases "write_global_classes fs1 cp xs")
  case (Inl e)
  then show ?thesis using assms write_raises [OF Inl] by simp
next
  case (Inr fs2)
  then show ?thesis using assms unique_write [OF assms(2,1) Inr] by simp
qed

lemma add_global_class_post:
  assumes lib: "uniq_norm L DEFECT_CLASSES_RU" and inv: "registry_inv L fs cp"
  shows "registry_unique L (snd (add_global_class L fs cp name)) cp
       \<and> (case fst (add_global_class L fs cp name) of
            Inr r \<Rightarrow> uniq_norm L r \<and> r \<noteq> []
          | Inl e \<Rightarrow> e = UnicodeEncodeError)"
proof -
  obtain cur fs1 where g: "get_global_classes fs cp = (cur, fs1)"
    by (cases "get_global_classes fs cp")
  from get_global_classes_post [OF lib inv] g
  have p: "registry_unique L fs1 cp" "uniq_norm L cur" "cur \<noteq> []" by simp_all
  let ?cls = "norm_cls name"
  show ?thesis
  proof (cases "?cls = [] \<or> norm_key L ?cls \<in> set (map (norm_key L) cur)")
    case True
    then have "add_global_class L fs cp name = (Inr cur, fs1)"
      by (auto simp: add_global_class_def g Let_def)
    then show ?thesis using p by simp
  next
    case False
    then have a: "add_global_class L fs cp name =
        (case write_global_classes fs1 cp (cur @ [?cls]) of
           Inl e \<Rightarrow> (Inl e, fs1) | Inr fs2 \<Rightarrow> (Inr (cur @ [?cls]), fs2))"
      by (simp add: add_global_class_def g Let_def)
    have u: "uniq_norm L (cur @ [?cls])" using False p by (simp add: uniq_norm_snoc)
    show ?thesis unfolding a by (rule write_result_post [OF u _ p(1)]) simp
  qed
qed

lemma rename_global_class_post:
  assumes lib: "uniq_norm L DEFECT_CLASSES_RU" and inv: "registry_inv L fs cp"
  shows "registry_unique L (snd (rename_global_class L fs cp frm to)) cp
       \<and> (case fst (rename_global_class L fs cp frm to) of
            Inr r \<Rightarrow> uniq_norm L r \<and> r \<noteq> []
          | Inl e \<Rightarrow> e = UnicodeEncodeError)"
proof -
  obtain cur fs1 where g: "get_global_classes fs cp = (cur, fs1)"
    by (cases "get_global_classes fs cp")
  from get_global_classes_post [OF lib inv] g
  have p: "registry_unique L fs1 cp" "uniq_norm L cur" "cur \<noteq> []" by simp_all
  let ?a = "norm_cls frm" and ?b = "norm_cls to"
  let ?looped = "rename_loop L ?a ?b cur [] False {}"
  let ?out = "if ?looped = [] then DEFECT_CLASSES_RU else ?looped"
  have loop: "uniq_norm L ?looped"
    using rename_loop_distinct [of L "[]" "{}" ?a ?b cur False] by (simp add: uniq_norm_def)
  have r: "rename_global_class L fs cp frm to =
     (if ?a = [] \<or> ?b = [] then (Inr cur, fs1)
      else if norm_key L ?a \<notin> set (map (norm_key L) cur) then
        (if norm_key L ?b \<notin> set (map (norm_key L) cur)
         then (case write_global_classes fs1 cp (cur @ [?b]) of
                 Inl e \<Rightarrow> (Inl e, fs1) | Inr fs2 \<Rightarrow> (Inr (cur @ [?b]), fs2))
         else (Inr cur, fs1))
      else (case write_global_classes fs1 cp ?out of
              Inl e \<Rightarrow> (Inl e, fs1) | Inr fs2 \<Rightarrow> (Inr ?out, fs2)))"
    by (simp add: rename_global_class_def g Let_def)
  show ?thesis
  proof (cases "?a = [] \<or> ?b = []")
    case True
    then show ?thesis using p by (simp add: r)
  next
    case ne: False
    show ?thesis
    proof (cases "norm_key L ?a \<in> set (map (norm_key L) cur)")
      case True
      have u: "uniq_norm L ?out" using loop lib by (cases "?looped = []") simp_all
      have eq: "rename_global_class L fs cp frm to =
          (case write_global_classes fs1 cp ?out of
             Inl e \<Rightarrow> (Inl e, fs1) | Inr fs2 \<Rightarrow> (Inr ?out, fs2))"
        using ne True by (simp add: r)
      show ?thesis unfolding eq by (rule write_result_post [OF u _ p(1)]) simp
    next
      case na: False
      show ?thesis
      proof (cases "norm_key L ?b \<in> set (map (norm_key L) cur)")
        case True
        then show ?thesis using ne na p by (simp add: r)
      next
        case False
        have u: "uniq_norm L (cur @ [?b])" using False p by (simp add: uniq_norm_snoc)
        have eq: "rename_global_class L fs cp frm to =
            (case write_global_classes fs1 cp (cur @ [?b]) of
               Inl e \<Rightarrow> (Inl e, fs1) | Inr fs2 \<Rightarrow> (Inr (cur @ [?b]), fs2))"
          using ne na False by (simp add: r)
        show ?thesis unfolding eq by (rule write_result_post [OF u _ p(1)]) simp
      qed
    qed
  qed
qed

lemma ensure_prochee_last_post:
  "last (ensure_prochee_last L xs) = prochee \<and> uniq_norm L (ensure_prochee_last L xs)"
proof -
  have "distinct (map (norm_key L) (uniq_classes L xs))"
    using uniq_loop_distinct [of L "[]" "{}" xs] by (simp add: uniq_classes_def)
  then show ?thesis
    by (auto simp: ensure_prochee_last_def uniq_norm_def distinct_map_filter)
qed

lemma stdlib_defaults_unique: "uniq_norm stdlib DEFECT_CLASSES_RU"
  by (simp add: uniq_norm_def DEFECT_CLASSES_RU_def norm_key_def norm_cls_def strip_def
      split_ws_def isspace_def stdlib_def lower_cp_def prochee_def)

text \<open>
  C2 (as stated). On a fresh registry \<open>add_global_class("foo")\<close> appends the new name after
  the sentinel: the persisted list ends with \<open>foo\<close>, not with the sentinel.
\<close>

theorem add_global_class_sentinel_counterexample:
  "stored_classes (snd (add_global_class stdlib (\<lambda>_. None) ''classes.json'' (u ''foo'')))
       ''classes.json''
     = Some (map PStr (DEFECT_CLASSES_RU @ [u ''foo'']))
   \<and> last (map PStr (DEFECT_CLASSES_RU @ [u ''foo''])) \<noteq> PStr prochee"
  by (simp add: add_global_class_def get_global_classes_def write_default_classes_def
      write_global_classes_def atomic_write_json_def classes_doc_def surrogate_free_def
      stored_classes_def dget_def Let_def
      norm_key_def norm_cls_def strip_def split_ws_def isspace_def stdlib_def lower_cp_def
      DEFECT_CLASSES_RU_def prochee_def)

text \<open>
  C2 (amended). If the registry file is missing, unreadable, or holds a list that is
  unique under case and whitespace normalisation, then after \<open>get_global_classes\<close>,
  after \<open>add_global_class\<close> with any name and after \<open>rename_global_class\<close> with any
  \<open>from\<close>/\<open>to\<close> the persisted list is a non-empty list of strings that is unique under
  normalisation; this includes the calls that raise because the new list cannot be
  written, which leave the file as \<open>get_global_classes\<close> left it. The sentinel is not
  kept last in the file; the list the dataset builders derive with
  \<open>_ensure_prochee_last\<close>, from the list \<open>add_global_class\<close> returns or from the registry
  as it is read afterwards, always ends with it.
  (The library's \<open>lower\<close> is assumed to keep the ten built-in names apart.)
\<close>

theorem registry_unique_after_ops:
  assumes "uniq_norm L DEFECT_CLASSES_RU" and "registry_inv L fs cp"
  shows "registry_unique L (snd (get_global_classes fs cp)) cp
       \<and> registry_unique L (snd (add_global_class L fs cp name)) cp
       \<and> registry_unique L (snd (rename_global_class L fs cp frm to)) cp
       \<and> (case fst (add_global_class L fs cp name) of
            Inr r \<Rightarrow> last (ensure_prochee_last L r) = prochee
          | Inl e \<Rightarrow> e = UnicodeEncodeError)
       \<and> last (ensure_prochee_last L
            (fst (get_global_classes (snd (add_global_class L fs cp name)) cp))) = prochee"
proof -
  have "case fst (add_global_class L fs cp name) of
            Inr r \<Rightarrow> last (ensure_prochee_last L r) = prochee
          | Inl e \<Rightarrow> e = UnicodeEncodeError"
    using add_global_class_post [OF assms, of name] ensure_prochee_last_post [of L]
    by (cases "fst (add_global_class L fs cp name)") simp_all
  then show ?thesis
    using get_global_classes_post [OF assms] add_global_class_post [OF assms]
      rename_global_class_post [OF assms] ensure_prochee_last_post
    by simp
qed

theorem registry_unique_after_ops_witness:
  "uniq_norm stdlib DEFECT_CLASSES_RU
   \<and> registry_inv stdlib (\<lambda>_. None) ''classes.json''
   \<and> registry_unique stdlib (snd (get_global_classes (\<lambda>_. None) ''classes.json'')) ''classes.json''
   \<and> registry_unique stdlib
        (snd (add_global_class stdlib (\<lambda>_. None) ''classes.json'' (u ''foo''))) ''classes.json''
   \<and> registry_unique stdlib
        (snd (rename_global_class stdlib (\<lambda>_. None) ''classes.json'' prochee (u ''other'')))
        ''classes.json''
   \<and> fst (add_global_class stdlib (\<lambda>_. None) ''classes.json'' (u ''foo''))
        = Inr (DEFECT_CLASSES_RU @ [u ''foo''])
   \<and> last (ensure_prochee_last stdlib (DEFECT_CLASSES_RU @ [u ''foo''])) = prochee
   \<and> last (ensure_prochee_last stdlib
        (fst (get_global_classes
           (snd (add_global_class stdlib (\<lambda>_. None) ''classes.json'' (u ''foo'')))
           ''classes.json''))) = prochee"
proof -
  have inv: "registry_inv stdlib (\<lambda>_. None) ''classes.json''"
    by (simp add: registry_inv_def stored_classes_def)
  have ret: "fst (add_global_class stdlib (\<lambda>_. None) ''classes.json'' (u ''foo''))
        = Inr (DEFECT_CLASSES_RU @ [u ''foo''])"
    by (simp add: add_global_class_def get_global_classes_def write_default_classes_def
      write_global_classes_def atomic_write_json_def classes_doc_def surrogate_free_def
      Let_def norm_key_def norm_cls_def strip_def split_ws_def isspace_def stdlib_def
      lower_cp_def DEFECT_CLASSES_RU_def prochee_def)
  show ?thesis
    using registry_unique_after_ops [OF stdlib_defaults_unique inv, of "u ''foo''" prochee "u ''other''"]
      stdlib_defaults_unique inv ret
    by simp
qed

section \<open>Bounding boxes: results\<close>

text \<open>
  C6. A box whose \<open>x\<close> is NaN (the JSON literal \<open>NaN\<close>, or the string \<open>"nan"\<close>, which
  \<open>float\<close> accepts) leaves \<open>dedupe_bboxes\<close> with \<open>x\<close> still NaN: both comparisons of
  \<open>_clamp01\<close> are false on NaN, \<open>min\<close> keeps it, and \<open>_round6\<close> prints and reads it back.
  The stored \<open>x\<close> is then not in \<open>[0, 1]\<close>.
\<close>

theorem dedupe_bboxes_nan:
  "dedupe_bboxes stdlib
     [PDict [(u ''cls'', PStr (u ''crack'')), (u ''x'', PFloat NaN), (u ''y'', PFloat (Num (1 / 10))),
             (u ''w'', PFloat (Num (1 / 5))), (u ''h'', PFloat (Num (1 / 5)))]]
   = [PDict [(u ''id'', PNone), (u ''cls'', PStr (u ''crack'')),
             (u ''x'', PFloat NaN), (u ''y'', PFloat (Num (1 / 10))),
             (u ''w'', PFloat (Num (1 / 5))), (u ''h'', PFloat (Num (1 / 5))),
             (u ''conf'', PNone), (u ''source'', PNone), (u ''polygon'', PNone)]]
   \<and> \<not> unit_fl NaN"
  by (simp add: dedupe_bboxes_def canon_bbox_def Let_def dget_def dget_or_def py_or_def py_str_def
      norm_cls_def strip_def split_ws_def isspace_def safe_float_def py_float_def
      normalize_xywh_def clamp01_def py_max_def py_min_def fl_sub_def round_half_even_def
      unit_fl_def fl_le_def fl_eq_def norm_key_def stdlib_def)


section \<open>Sessions: results\<close>

lemma dget_dset: "dget (dset d k v) k' = (if k' = k then v else dget d k')"
  by (induction d) (auto simp: dget_def)

lemma fix_photo_None: "fix_photo ph = None \<longleftrightarrow> \<not> has_photo_id ph"
  by (cases ph) (simp_all add: fix_photo_def has_photo_id_def Let_def)

lemma fix_photo_Some:
  assumes "fix_photo ph = Some q"
  shows "photo_ok q \<and> photo_id_of q = photo_id_of ph"
proof -
  from assms obtain p2 where ph: "ph = PDict p2" and t: "truthy (dget p2 (u ''photo_id''))"
    by (cases ph) (auto simp: fix_photo_def split: if_splits)
  from assms ph t obtain l where q: "q = PDict (dset p2 (u ''labels'') (PDict (dset l (u ''bboxes'')
      (PList (case dget l (u ''bboxes'') of PList bs \<Rightarrow> bs | _ \<Rightarrow> [])))))"
    by (auto simp: fix_photo_def Let_def)
  show ?thesis
    using t by (simp add: q ph photo_ok_def photo_id_of_def dget_dset)
qed

lemma map_filter_fix_photo:
  "list_all photo_ok (List.map_filter fix_photo phs)
   \<and> map photo_id_of (List.map_filter fix_photo phs) = map photo_id_of (filter has_photo_id phs)"
proof (induction phs)
  case Nil
  then show ?case by simp
next
  case (Cons ph phs)
  show ?case
  proof (cases "fix_photo ph")
    case None
    with Cons show ?thesis by (simp add: fix_photo_None [symmetric])
  next
    case (Some q)
    then have "has_photo_id ph" using fix_photo_None [of ph] by simp
    with Cons Some fix_photo_Some [OF Some] show ?thesis by simp
  qed
qed

lemma ensure_session_shape_photos:
  "\<exists>d. fst (ensure_session_shape L fs now s sid) = PDict d
     \<and> dget d (u ''photos'') = PList (List.map_filter fix_photo (photos_of s))"
proof (cases s)
  case (PDict d)
  then show ?thesis
    by (simp add: ensure_session_shape_def split_beta Let_def photos_of_def dget_dset
        split: pv.splits)
qed (simp_all add: ensure_session_shape_def split_beta new_session_def photos_of_def dget_def)

lemma ensure_session_shape_post:
  "is_dict (fst (ensure_session_shape L fs now s sid))
   \<and> list_all photo_ok (photos_of (fst (ensure_session_shape L fs now s sid)))
   \<and> map photo_id_of (photos_of (fst (ensure_session_shape L fs now s sid)))
       = map photo_id_of (filter has_photo_id (photos_of s))"
proof -
  obtain d where "fst (ensure_session_shape L fs now s sid) = PDict d"
    "dget d (u ''photos'') = PList (List.map_filter fix_photo (photos_of s))"
    using ensure_session_shape_photos by blast
  then show ?thesis using map_filter_fix_photo [of "photos_of s"] by (simp add: photos_of_def)
qed












section \<open>Train job ledger: results\<close>

lemma marked_status:
  "job_str L (dset (dset (dset (dset (dset job (u ''status'') (PStr (u ''error''))) (u ''lost'') a)
       (u ''error_code'') b) (u ''message'') c) (u ''updated_at_ns'') d) (u ''status'') = u ''error''"
  by (simp add: job_str_def dget_dset py_or_def py_str_def strip_def isspace_def)

lemma encodable_dset:
  "encodable (PDict d) \<Longrightarrow> surrogate_free k \<Longrightarrow> encodable v \<Longrightarrow> encodable (PDict (dset d k v))"
  by (induction d) auto

lemma encodable_marked:
  assumes "encodable (PDict job)"
  shows "encodable (PDict (dset (dset (dset (dset (dset job (u ''status'') (PStr (u ''error'')))
      (u ''lost'') (PBool True)) (u ''error_code'') (PStr (u ''lost_after_restart'')))
      (u ''message'') (PStr LOST_MESSAGE)) (u ''updated_at_ns'') (PInt now)))"
proof -
  have m: "surrogate_free LOST_MESSAGE" by (simp add: LOST_MESSAGE_def surrogate_free_def)
  show ?thesis
    by (intro encodable_dset assms) (simp_all add: m, simp_all add: surrogate_free_def)
qed

text \<open>
  The current copy, \<open>backend/app/services/train_job_store.py\<close>. Let the file of a job id
  hold a record whose status is queued or running. If its boot id is not the current
  one, its log file is not fresh, the record itself was not updated within
  \<open>JOB_STALE_SEC\<close>, the record carries that job id in its \<open>job_id\<close> field (as every
  record written by \<open>set_job\<close> does) and can be written as UTF-8, then \<open>get_job\<close> returns
  it with status \<open>error\<close>, \<open>lost = true\<close> and \<open>error_code = lost_after_restart\<close>, the file
  holds the returned record, and every later \<open>get_job\<close> of the id returns the same record
  and leaves the files alone. If the record was updated within the window, \<open>get_job\<close>
  returns it unchanged and writes nothing. (The library's \<open>lower\<close> is assumed not to turn
  \<open>error\<close> into \<open>queued\<close> or \<open>running\<close>.)
\<close>

lemma get_job_stale:
  assumes lib: "lower L (u ''error'') \<notin> {u ''queued'', u ''running''}"
    and jid: "strip job_id \<noteq> []"
    and stored: "jobs (strip job_id) = Some (Doc (PDict job))"
    and st: "lower L (job_str L job (u ''status'')) \<in> {u ''queued'', u ''running''}"
  shows "(job_str L job (u ''boot_id'') \<noteq> SERVER_BOOT_ID cfg
          \<and> \<not> log_fresh cfg lg now (job_str L job (u ''log_path''))
          \<and> fits_double (JOB_STALE_SEC cfg)
          \<and> \<not> job_last_update_age_sec L now job \<le> of_int (JOB_STALE_SEC cfg)
          \<and> job_str L job (u ''job_id'') = strip job_id
          \<and> encodable (PDict job) \<longrightarrow>
          (case get_job L cfg jobs lg now job_id of (r1, jobs1) \<Rightarrow>
             field r1 (u ''status'') = PStr (u ''error'')
             \<and> field r1 (u ''lost'') = PBool True
             \<and> field r1 (u ''error_code'') = PStr (u ''lost_after_restart'')
             \<and> jobs1 (strip job_id) = Some (Doc r1)
             \<and> (\<forall>lg2 now2. get_job L cfg jobs1 lg2 now2 job_id = (r1, jobs1))))
       \<and> (job_last_update_age_sec L now job \<le> of_int (JOB_STALE_SEC cfg) \<longrightarrow>
            get_job L cfg jobs lg now job_id = (PDict job, jobs))"
proof (intro conjI impI)
  assume fresh: "job_last_update_age_sec L now job \<le> of_int (JOB_STALE_SEC cfg)"
  show "get_job L cfg jobs lg now job_id = (PDict job, jobs)"
    using jid stored fresh by (simp add: get_job_def load_json_def maybe_mark_lost_def Let_def)
next
  assume stale: "job_str L job (u ''boot_id'') \<noteq> SERVER_BOOT_ID cfg
          \<and> \<not> log_fresh cfg lg now (job_str L job (u ''log_path''))
          \<and> fits_double (JOB_STALE_SEC cfg)
          \<and> \<not> job_last_update_age_sec L now job \<le> of_int (JOB_STALE_SEC cfg)
          \<and> job_str L job (u ''job_id'') = strip job_id
          \<and> encodable (PDict job)"
  let ?j5 = "dset (dset (dset (dset (dset job (u ''status'') (PStr (u ''error''))) (u ''lost'')
      (PBool True)) (u ''error_code'') (PStr (u ''lost_after_restart''))) (u ''message'')
      (PStr LOST_MESSAGE)) (u ''updated_at_ns'') (PInt now)"
  let ?jobs1 = "jobs(strip job_id \<mapsto> Doc (PDict ?j5))"
  have enc: "encodable (PDict ?j5)" using stale by (intro encodable_marked) simp
  have wr: "atomic_write_json jobs (strip job_id) (PDict ?j5) = Inr ?jobs1"
    using enc by (simp only: atomic_write_json_def if_True)
  have first: "get_job L cfg jobs lg now job_id = (PDict ?j5, ?jobs1)"
    using jid stored st stale wr
    by (auto simp: get_job_def load_json_def maybe_mark_lost_def Let_def)
  have again: "get_job L cfg ?jobs1 lg2 now2 job_id = (PDict ?j5, ?jobs1)" for lg2 now2
    using jid lib
    by (auto simp: get_job_def load_json_def maybe_mark_lost_def Let_def marked_status [simplified])
  show "case get_job L cfg jobs lg now job_id of (r1, jobs1) \<Rightarrow>
             field r1 (u ''status'') = PStr (u ''error'')
             \<and> field r1 (u ''lost'') = PBool True
             \<and> field r1 (u ''error_code'') = PStr (u ''lost_after_restart'')
             \<and> jobs1 (strip job_id) = Some (Doc r1)
             \<and> (\<forall>lg2 now2. get_job L cfg jobs1 lg2 now2 job_id = (r1, jobs1))"
    unfolding first using again by (simp add: field_def dget_dset)
qed

lemmas job_eval = get_job_def load_json_def maybe_mark_lost_def Let_def atomic_write_json_def
  job_str_def log_fresh_def job_last_update_age_sec_def fits_double_def py_int_def py_or_def
  py_str_def dget_def strip_def isspace_def stdlib_def lower_cp_def field_def surrogate_free_def

text \<open>
  C3. The claim cites both copies of the module. The older one,
  \<open>app/services/train_job_store.py\<close>, does not look at the record's own age: a running
  record written by another process one second ago, whose log file does not exist yet,
  is returned with status \<open>lost\<close> and written back in that state, although it was updated
  well within the window of 120 seconds. The current copy,
  \<open>backend/app/services/train_job_store.py\<close>, returns the same record unchanged and
  writes nothing.
\<close>

theorem old_get_job_marks_fresh_record:
  "(let cfg = \<lparr> SERVER_BOOT_ID = u ''boot-b'', JOB_STALE_SEC = 120 \<rparr>;
        job = [(u ''job_id'', PStr (u ''train_1'')), (u ''created_at_ns'', PInt 498000000000),
               (u ''boot_id'', PStr (u ''boot-a'')), (u ''worker_pid'', PInt 4242),
               (u ''status'', PStr (u ''running'')), (u ''log_path'', PStr (u ''train_1.log'')),
               (u ''updated_at_ns'', PInt 499000000000)];
        marked = [(u ''job_id'', PStr (u ''train_1'')), (u ''created_at_ns'', PInt 498000000000),
               (u ''boot_id'', PStr (u ''boot-a'')), (u ''worker_pid'', PInt 4242),
               (u ''status'', PStr (u ''lost'')), (u ''log_path'', PStr (u ''train_1.log'')),
               (u ''updated_at_ns'', PInt 500000000000), (u ''message'', PStr LOST_MESSAGE)];
        jobs = (\<lambda>_. None)(u ''train_1'' \<mapsto> Doc (PDict job));
        logs = (\<lambda>_. None)
    in job_last_update_age_sec stdlib 500000000000 job = 1
       \<and> old_get_job stdlib cfg jobs logs 500000000000 (u ''train_1'')
           = (PDict marked, jobs(u ''train_1'' \<mapsto> Doc (PDict marked)))
       \<and> get_job stdlib cfg jobs logs 500000000000 (u ''train_1'') = (PDict job, jobs))"
  by (simp add: job_eval old_get_job_def old_maybe_mark_lost_def old_job_str_def
      old_log_fresh_def LOST_MESSAGE_def)

text \<open>Two instances of the current copy: a record last updated 499 seconds ago is marked
  and written back, and the next read returns the marked record; the same record read
  99 seconds after its update is returned unchanged.\<close>

lemma get_job_stale_instance:
  "(let cfg = \<lparr> SERVER_BOOT_ID = u ''boot-b'', JOB_STALE_SEC = 120 \<rparr>;
        job = [(u ''job_id'', PStr (u ''train_1'')), (u ''status'', PStr (u ''running'')),
               (u ''boot_id'', PStr (u ''boot-a'')), (u ''updated_at_ns'', PInt 1000000000)];
        jobs = (\<lambda>_. None)(u ''train_1'' \<mapsto> Doc (PDict job));
        r1 = get_job stdlib cfg jobs (\<lambda>_. None) 500000000000 (u ''train_1'')
    in field (fst r1) (u ''status'') = PStr (u ''error'')
       \<and> field (fst r1) (u ''lost'') = PBool True
       \<and> snd r1 (u ''train_1'') = Some (Doc (fst r1))
       \<and> get_job stdlib cfg (snd r1) (\<lambda>_. None) 900000000000 (u ''train_1'') = r1
       \<and> get_job stdlib cfg jobs (\<lambda>_. None) 100000000000 (u ''train_1'') = (PDict job, jobs))"
proof -
  let ?cfg = "\<lparr> SERVER_BOOT_ID = u ''boot-b'', JOB_STALE_SEC = 120 \<rparr>"
  let ?job = "[(u ''job_id'', PStr (u ''train_1'')), (u ''status'', PStr (u ''running'')),
               (u ''boot_id'', PStr (u ''boot-a'')), (u ''updated_at_ns'', PInt 1000000000)]"
  let ?jobs = "(\<lambda>_. None)(u ''train_1'' \<mapsto> Doc (PDict ?job))"
  have h1: "lower stdlib (u ''error'') \<notin> {u ''queued'', u ''running''}"
    by (simp add: stdlib_def lower_cp_def)
  have h2: "strip (u ''train_1'') \<noteq> []" by (simp add: strip_def isspace_def)
  have h3: "?jobs (strip (u ''train_1'')) = Some (Doc (PDict ?job))"
    by (simp add: strip_def isspace_def)
  have h4: "lower stdlib (job_str stdlib ?job (u ''status'')) \<in> {u ''queued'', u ''running''}"
    by (simp add: job_eval)
  have h5: "job_str stdlib ?job (u ''boot_id'') \<noteq> SERVER_BOOT_ID ?cfg
       \<and> \<not> log_fresh ?cfg (\<lambda>_. None) 500000000000 (job_str stdlib ?job (u ''log_path''))
       \<and> fits_double (JOB_STALE_SEC ?cfg)
       \<and> \<not> job_last_update_age_sec stdlib 500000000000 ?job \<le> of_int (JOB_STALE_SEC ?cfg)
       \<and> job_str stdlib ?job (u ''job_id'') = strip (u ''train_1'')
       \<and> encodable (PDict ?job)"
    by (simp add: job_eval)
  have h6: "job_last_update_age_sec stdlib 100000000000 ?job \<le> of_int (JOB_STALE_SEC ?cfg)"
    by (simp add: job_eval)
  note t1 = get_job_stale [where L = stdlib and job_id = "u ''train_1''" and jobs = ?jobs
      and job = ?job and cfg = ?cfg and lg = "\<lambda>_. None" and now = 500000000000, OF h1 h2 h3 h4]
  note t2 = get_job_stale [where L = stdlib and job_id = "u ''train_1''" and jobs = ?jobs
      and job = ?job and cfg = ?cfg and lg = "\<lambda>_. None" and now = 100000000000, OF h1 h2 h3 h4]
  note a = t1 [THEN conjunct1, THEN mp, OF h5]
  note b = t2 [THEN conjunct2, THEN mp, OF h6]
  have s: "strip (u ''train_1'') = u ''train_1''" by (simp add: strip_def isspace_def)
  show ?thesis
    unfolding Let_def
    using a b by (auto simp: split_beta s [simplified])
qed

section \<open>Dataset directories: results\<close>

lemma lbls_get_Some: "lbls_get lbls st = Some lbl \<Longrightarrow> lbl \<in> set lbls \<and> stem lbl = st"
  by (auto simp: lbls_get_def dest!: map_of_SomeD)

lemma lbls_get_None: "lbls_get lbls st = None \<longleftrightarrow> st \<notin> stem ` set lbls"
  by (auto simp: lbls_get_def map_of_eq_None_iff image_iff)

lemma list_labels_names: "set (list_labels d) \<subseteq> fst ` set d"
  by (auto simp: list_labels_def)

lemma list_images_names: "set (list_images L d) \<subseteq> fst ` set d"
  by (auto simp: list_images_def)

lemma pick_pair_Some:
  "pick_pair imgs lbls d = Some (img, lbl) \<Longrightarrow>
     img \<in> set imgs \<and> lbl \<in> fst ` set d \<and> lbl \<in> set lbls \<and> stem lbl = stem img"
  by (induction imgs) (auto split: option.splits if_splits dest: lbls_get_Some)

lemma pick_pair_None:
  "set lbls \<subseteq> fst ` set d \<Longrightarrow>
     pick_pair imgs lbls d = None \<longleftrightarrow> (\<forall>img\<in>set imgs. stem img \<notin> stem ` set lbls)"
proof (induction imgs)
  case Nil
  then show ?case by simp
next
  case (Cons img imgs)
  show ?case
  proof (cases "lbls_get lbls (stem img)")
    case None
    then have "stem img \<notin> stem ` set lbls" by (simp add: lbls_get_None)
    with None Cons show ?thesis by simp
  next
    case (Some lbl)
    from lbls_get_Some [OF Some] have l: "lbl \<in> set lbls" "stem lbl = stem img" by auto
    from l(1) Cons.prems have "lbl \<in> fst ` set d" by blast
    moreover from l have "stem img \<in> stem ` set lbls" by (metis imageI)
    ultimately have "lbl \<in> fst ` set d" "stem img \<in> stem ` set lbls" .
    with Some show ?thesis by simp
  qed
qed

lemma has_pair_pick:
  assumes "has_pair L di dl"
  shows "\<exists>img lbl. pick_pair (list_images L di) (list_labels dl) dl = Some (img, lbl)
           \<and> img \<in> fst ` set di \<and> is_image_file L img \<and> lbl \<in> fst ` set dl
           \<and> lbl \<in> set (list_labels dl) \<and> stem lbl = stem img"
proof -
  have sub: "set (list_labels dl) \<subseteq> fst ` set dl" by (rule list_labels_names)
  from assms obtain img0 lbl0 where "img0 \<in> set (list_images L di)"
    "lbl0 \<in> set (list_labels dl)" "stem lbl0 = stem img0"
    by (auto simp: has_pair_def list_ex_iff)
  then have "\<exists>img\<in>set (list_images L di). stem img \<in> stem ` set (list_labels dl)"
    by (metis imageI)
  then have "pick_pair (list_images L di) (list_labels dl) dl \<noteq> None"
    using pick_pair_None [OF sub, of "list_images L di"] by blast
  then obtain img lbl where p: "pick_pair (list_images L di) (list_labels dl) dl = Some (img, lbl)"
    by auto
  from pick_pair_Some [OF p] have "img \<in> set (list_images L di)" "lbl \<in> fst ` set dl"
    "lbl \<in> set (list_labels dl)" "stem lbl = stem img" by auto
  then show ?thesis using p by (auto simp: list_images_def)
qed

lemma put_member: "n \<in> set (map fst (put d n f))"
  by (induction d) (simp_all, force)

lemma list_images_put:
  "is_image_file L n \<Longrightarrow> list_images L (put d n f) \<noteq> []"
proof -
  assume "is_image_file L n"
  moreover have "n \<in> set (map fst (put d n f))" by (rule put_member)
  ultimately have "n \<in> set (list_images L (put d n f))" by (simp add: list_images_def)
  then show ?thesis by auto
qed

lemma map_of_in_names: "n \<in> fst ` set d \<Longrightarrow> \<exists>f. map_of d n = Some f"
  by (induction d) auto

lemma has_pair_nonempty: "has_pair L di dl \<Longrightarrow> list_images L di \<noteq> []"
  by (auto simp: has_pair_def)

lemma ensure_val_filled:
  assumes v: "list_images L (images_val c) = []" and hp: "has_pair L (images_train c) (labels_train c)"
  shows "\<exists>img lbl f g m'. is_image_file L img
           \<and> lbl \<in> set (list_labels (labels_train c)) \<and> stem lbl = stem img
           \<and> map_of (images_train c) img = Some f \<and> map_of (labels_train c) lbl = Some g
           \<and> ensure_nonempty_train_val L c m =
             (c\<lparr>images_val := put (images_val c) img f, labels_val := put (labels_val c) lbl g\<rparr>, m')"
proof -
  obtain img lbl where p: "pick_pair (list_images L (images_train c)) (list_labels (labels_train c))
      (labels_train c) = Some (img, lbl)"
    and i: "img \<in> fst ` set (images_train c)" "is_image_file L img"
    and l: "lbl \<in> fst ` set (labels_train c)"
    and st: "lbl \<in> set (list_labels (labels_train c))" "stem lbl = stem img"
    using has_pair_pick [OF hp] by blast
  obtain f where f: "map_of (images_train c) img = Some f" using map_of_in_names [OF i(1)] by blast
  obtain g where g: "map_of (labels_train c) lbl = Some g" using map_of_in_names [OF l] by blast
  have cp: "\<exists>m'. copy_pair L c m Train img lbl Val =
           (c\<lparr>images_val := put (images_val c) img f, labels_val := put (labels_val c) lbl g\<rparr>, m', True)"
    by (simp add: copy_pair_def images_of_def labels_of_def set_images_def set_labels_def f g Let_def
        split: option.splits)
  then obtain m' where cp': "copy_pair L c m Train img lbl Val =
           (c\<lparr>images_val := put (images_val c) img f, labels_val := put (labels_val c) lbl g\<rparr>, m', True)"
    by blast
  have ne: "list_images L (images_train c) \<noteq> []" using hp by (rule has_pair_nonempty)
  have "ensure_nonempty_train_val L c m =
      (c\<lparr>images_val := put (images_val c) img f, labels_val := put (labels_val c) lbl g\<rparr>, m')"
    using v ne by (simp add: ensure_nonempty_train_val_def Let_def p cp')
  then show ?thesis using i f g st by blast
qed

lemma ensure_train_filled:
  assumes v: "list_images L (images_train c) = []" and hp: "has_pair L (images_val c) (labels_val c)"
  shows "\<exists>img lbl f g m'. is_image_file L img
           \<and> lbl \<in> set (list_labels (labels_val c)) \<and> stem lbl = stem img
           \<and> map_of (images_val c) img = Some f \<and> map_of (labels_val c) lbl = Some g
           \<and> ensure_nonempty_train_val L c m =
             (c\<lparr>images_train := put (images_train c) img f, labels_train := put (labels_train c) lbl g\<rparr>, m')"
proof -
  obtain img lbl where p: "pick_pair (list_images L (images_val c)) (list_labels (labels_val c))
      (labels_val c) = Some (img, lbl)"
    and i: "img \<in> fst ` set (images_val c)" "is_image_file L img"
    and l: "lbl \<in> fst ` set (labels_val c)"
    and st: "lbl \<in> set (list_labels (labels_val c))" "stem lbl = stem img"
    using has_pair_pick [OF hp] by blast
  obtain f where f: "map_of (images_val c) img = Some f" using map_of_in_names [OF i(1)] by blast
  obtain g where g: "map_of (labels_val c) lbl = Some g" using map_of_in_names [OF l] by blast
  have cp: "\<exists>m'. copy_pair L c m Val img lbl Train =
           (c\<lparr>images_train := put (images_train c) img f, labels_train := put (labels_train c) lbl g\<rparr>, m', True)"
    by (simp add: copy_pair_def images_of_def labels_of_def set_images_def set_labels_def f g Let_def
        split: option.splits)
  then obtain m' where cp': "copy_pair L c m Val img lbl Train =
           (c\<lparr>images_train := put (images_train c) img f, labels_train := put (labels_train c) lbl g\<rparr>, m', True)"
    by blast
  have ne: "list_images L (images_val c) \<noteq> []" using hp by (rule has_pair_nonempty)
  have "ensure_nonempty_train_val L c m =
      (c\<lparr>images_train := put (images_train c) img f, labels_train := put (labels_train c) lbl g\<rparr>, m')"
    using v ne by (simp add: ensure_nonempty_train_val_def Let_def p cp')
  then show ?thesis using i f g st by blast
qed

lemma ensure_unchanged:
  "(list_images L (images_train c) = []) = (list_images L (images_val c) = []) \<Longrightarrow>
     ensure_nonempty_train_val L c m = (c, m)"
  by (auto simp: ensure_nonempty_train_val_def Let_def)


text \<open>
  C8 (amended). \<open>_ensure_nonempty_train_val\<close>, with which
  \<open>build_accumulated_dataset_for_session\<close> ends, does the following. If \<open>images/val\<close>
  holds no image and some image of \<open>images/train\<close> has a label file of the same stem,
  then one image of \<open>images/train\<close> and a label file \<open>*.txt\<close> of \<open>labels/train\<close> with the
  same stem are copied, under their names and with their contents, into the \<open>val\<close>
  directories (the originals stay in \<open>train\<close>, and nothing else changes in the four
  directories), and afterwards both image directories are non-empty; symmetrically when
  \<open>images/train\<close> holds no image. If neither directory holds an image, nothing is
  changed and both stay empty.
\<close>

theorem ensure_nonempty_train_val_result:
  "(list_images L (images_val c) = [] \<and> has_pair L (images_train c) (labels_train c) \<longrightarrow>
      (\<exists>img lbl f g m'. is_image_file L img
         \<and> lbl \<in> set (list_labels (labels_train c)) \<and> stem lbl = stem img
         \<and> map_of (images_train c) img = Some f \<and> map_of (labels_train c) lbl = Some g
         \<and> ensure_nonempty_train_val L c m =
             (c\<lparr>images_val := put (images_val c) img f, labels_val := put (labels_val c) lbl g\<rparr>, m'))
      \<and> list_images L (images_val (fst (ensure_nonempty_train_val L c m))) \<noteq> []
      \<and> list_images L (images_train (fst (ensure_nonempty_train_val L c m))) \<noteq> [])
   \<and> (list_images L (images_train c) = [] \<and> has_pair L (images_val c) (labels_val c) \<longrightarrow>
      (\<exists>img lbl f g m'. is_image_file L img
         \<and> lbl \<in> set (list_labels (labels_val c)) \<and> stem lbl = stem img
         \<and> map_of (images_val c) img = Some f \<and> map_of (labels_val c) lbl = Some g
         \<and> ensure_nonempty_train_val L c m =
             (c\<lparr>images_train := put (images_train c) img f,
                labels_train := put (labels_train c) lbl g\<rparr>, m'))
      \<and> list_images L (images_val (fst (ensure_nonempty_train_val L c m))) \<noteq> []
      \<and> list_images L (images_train (fst (ensure_nonempty_train_val L c m))) \<noteq> [])
   \<and> (list_images L (images_train c) = [] \<and> list_images L (images_val c) = [] \<longrightarrow>
        ensure_nonempty_train_val L c m = (c, m))"
proof (intro conjI impI)
  assume a: "list_images L (images_val c) = [] \<and> has_pair L (images_train c) (labels_train c)"
  then obtain img lbl f g m' where i: "is_image_file L img"
    and st: "lbl \<in> set (list_labels (labels_train c))" "stem lbl = stem img"
    and f: "map_of (images_train c) img = Some f" and g: "map_of (labels_train c) lbl = Some g"
    and e: "ensure_nonempty_train_val L c m =
             (c\<lparr>images_val := put (images_val c) img f, labels_val := put (labels_val c) lbl g\<rparr>, m')"
    using ensure_val_filled [of L c m] by blast
  show "\<exists>img lbl f g m'. is_image_file L img
         \<and> lbl \<in> set (list_labels (labels_train c)) \<and> stem lbl = stem img
         \<and> map_of (images_train c) img = Some f \<and> map_of (labels_train c) lbl = Some g
         \<and> ensure_nonempty_train_val L c m =
             (c\<lparr>images_val := put (images_val c) img f, labels_val := put (labels_val c) lbl g\<rparr>, m')"
    using i st f g e by blast
  show "list_images L (images_val (fst (ensure_nonempty_train_val L c m))) \<noteq> []"
    using list_images_put [OF i] by (simp add: e)
  show "list_images L (images_train (fst (ensure_nonempty_train_val L c m))) \<noteq> []"
    using a has_pair_nonempty by (auto simp: e)
next
  assume a: "list_images L (images_train c) = [] \<and> has_pair L (images_val c) (labels_val c)"
  then obtain img lbl f g m' where i: "is_image_file L img"
    and st: "lbl \<in> set (list_labels (labels_val c))" "stem lbl = stem img"
    and f: "map_of (images_val c) img = Some f" and g: "map_of (labels_val c) lbl = Some g"
    and e: "ensure_nonempty_train_val L c m =
             (c\<lparr>images_train := put (images_train c) img f,
                labels_train := put (labels_train c) lbl g\<rparr>, m')"
    using ensure_train_filled [of L c m] by blast
  show "\<exists>img lbl f g m'. is_image_file L img
         \<and> lbl \<in> set (list_labels (labels_val c)) \<and> stem lbl = stem img
         \<and> map_of (images_val c) img = Some f \<and> map_of (labels_val c) lbl = Some g
         \<and> ensure_nonempty_train_val L c m =
             (c\<lparr>images_train := put (images_train c) img f,
                labels_train := put (labels_train c) lbl g\<rparr>, m')"
    using i st f g e by blast
  show "list_images L (images_train (fst (ensure_nonempty_train_val L c m))) \<noteq> []"
    using list_images_put [OF i] by (simp add: e)
  show "list_images L (images_val (fst (ensure_nonempty_train_val L c m))) \<noteq> []"
    using a has_pair_nonempty by (auto simp: e)
next
  assume "list_images L (images_train c) = [] \<and> list_images L (images_val c) = []"
  then show "ensure_nonempty_train_val L c m = (c, m)" by (simp add: ensure_unchanged)
qed

lemmas corpus_eval = list_images_def list_labels_def is_image_file_def suffix_def stem_def
  last_dot_def ends_with_def IMAGE_EXTS_def stdlib_def lower_cp_def has_pair_def empty_corpus_def

text \<open>
  C8 (as stated). With no image in either split (a session without resolvable photos on a
  fresh dataset directory) the call changes nothing: both directories are empty afterwards.
\<close>

theorem ensure_nonempty_both_empty_counterexample:
  "ensure_nonempty_train_val stdlib empty_corpus [] = (empty_corpus, [])
   \<and> list_images stdlib (images_train empty_corpus) = []
   \<and> list_images stdlib (images_val empty_corpus) = []"
  by (simp add: ensure_nonempty_train_val_def corpus_eval)

text \<open>
  An instance of each case. In the first, \<open>images/train\<close> holds \<open>a.jpg\<close>, which has no
  label file, before \<open>s_p1.jpg\<close>, and \<open>labels/train\<close> holds \<open>b.txt\<close> before \<open>s_p1.txt\<close>: the
  sample copied into \<open>val\<close> is \<open>s_p1.jpg\<close> with \<open>s_p1.txt\<close>.
\<close>

theorem ensure_nonempty_train_val_result_witness:
  "(let c = \<lparr> images_train = [(u ''a.jpg'', \<lparr> data = [9], mtime_ns = 4 \<rparr>),
                               (u ''s_p1.jpg'', \<lparr> data = [1, 2, 3], mtime_ns = 5 \<rparr>)],
               images_val = [],
               labels_train = [(u ''b.txt'', \<lparr> data = [49], mtime_ns = 4 \<rparr>),
                               (u ''s_p1.txt'', \<lparr> data = [48], mtime_ns = 6 \<rparr>)],
               labels_val = [] \<rparr>;
        c' = fst (ensure_nonempty_train_val stdlib c [])
    in list_images stdlib (images_val c) = [] \<and> has_pair stdlib (images_train c) (labels_train c)
       \<and> c' = c\<lparr> images_val := [(u ''s_p1.jpg'', \<lparr> data = [1, 2, 3], mtime_ns = 5 \<rparr>)],
                  labels_val := [(u ''s_p1.txt'', \<lparr> data = [48], mtime_ns = 6 \<rparr>)] \<rparr>
       \<and> list_images stdlib (images_val c') \<noteq> [] \<and> list_images stdlib (images_train c') \<noteq> [])
   \<and> (let c = \<lparr> images_train = [],
               images_val = [(u ''s_p2.png'', \<lparr> data = [4], mtime_ns = 5 \<rparr>)],
               labels_train = [],
               labels_val = [(u ''s_p2.txt'', \<lparr> data = [], mtime_ns = 6 \<rparr>)] \<rparr>;
        c' = fst (ensure_nonempty_train_val stdlib c [])
    in list_images stdlib (images_train c) = [] \<and> has_pair stdlib (images_val c) (labels_val c)
       \<and> c' = c\<lparr> images_train := [(u ''s_p2.png'', \<lparr> data = [4], mtime_ns = 5 \<rparr>)],
                  labels_train := [(u ''s_p2.txt'', \<lparr> data = [], mtime_ns = 6 \<rparr>)] \<rparr>
       \<and> list_images stdlib (images_val c') \<noteq> [] \<and> list_images stdlib (images_train c') \<noteq> [])
   \<and> list_images stdlib (images_train empty_corpus) = []
   \<and> list_images stdlib (images_val empty_corpus) = []
   \<and> ensure_nonempty_train_val stdlib empty_corpus [] = (empty_corpus, [])"
proof -
  let ?c1 = "\<lparr> images_train = [(u ''a.jpg'', \<lparr> data = [9], mtime_ns = 4 \<rparr>),
                               (u ''s_p1.jpg'', \<lparr> data = [1, 2, 3], mtime_ns = 5 \<rparr>)],
               images_val = [],
               labels_train = [(u ''b.txt'', \<lparr> data = [49], mtime_ns = 4 \<rparr>),
                               (u ''s_p1.txt'', \<lparr> data = [48], mtime_ns = 6 \<rparr>)],
               labels_val = [] \<rparr>"
  let ?c2 = "\<lparr> images_train = [],
               images_val = [(u ''s_p2.png'', \<lparr> data = [4], mtime_ns = 5 \<rparr>)],
               labels_train = [],
               labels_val = [(u ''s_p2.txt'', \<lparr> data = [], mtime_ns = 6 \<rparr>)] \<rparr>"
  have h1: "list_images stdlib (images_val ?c1) = []
      \<and> has_pair stdlib (images_train ?c1) (labels_train ?c1)"
    by (simp add: corpus_eval)
  have h2: "list_images stdlib (images_train ?c2) = []
      \<and> has_pair stdlib (images_val ?c2) (labels_val ?c2)"
    by (simp add: corpus_eval)
  have h3: "list_images stdlib (images_train empty_corpus) = []
      \<and> list_images stdlib (images_val empty_corpus) = []"
    by (simp add: corpus_eval)
  have e1: "fst (ensure_nonempty_train_val stdlib ?c1 [])
      = ?c1\<lparr> images_val := [(u ''s_p1.jpg'', \<lparr> data = [1, 2, 3], mtime_ns = 5 \<rparr>)],
             labels_val := [(u ''s_p1.txt'', \<lparr> data = [48], mtime_ns = 6 \<rparr>)] \<rparr>"
    by (simp add: ensure_nonempty_train_val_def corpus_eval Let_def lbls_get_def copy_pair_def
        images_of_def labels_of_def set_images_def set_labels_def)
  have e2: "fst (ensure_nonempty_train_val stdlib ?c2 [])
      = ?c2\<lparr> images_train := [(u ''s_p2.png'', \<lparr> data = [4], mtime_ns = 5 \<rparr>)],
             labels_train := [(u ''s_p2.txt'', \<lparr> data = [], mtime_ns = 6 \<rparr>)] \<rparr>"
    by (simp add: ensure_nonempty_train_val_def corpus_eval Let_def lbls_get_def copy_pair_def
        images_of_def labels_of_def set_images_def set_labels_def)
  note r1 = ensure_nonempty_train_val_result [where L = stdlib and c = ?c1 and m = "[]",
      THEN conjunct1, THEN mp, OF h1]
  note r2 = ensure_nonempty_train_val_result [where L = stdlib and c = ?c2 and m = "[]",
      THEN conjunct2, THEN conjunct1, THEN mp, OF h2]
  note r3 = ensure_nonempty_train_val_result [where L = stdlib and c = empty_corpus and m = "[]",
      THEN conjunct2, THEN conjunct2, THEN mp, OF h3]
  show ?thesis
    unfolding Let_def using h1 h2 h3 e1 e2 r1 r2 r3 by blast
qed

end
